theory Spec2Isabelle
  imports Main
begin

section \<open>JavaScript values and the two built-in operations the page relies on\<close>

text \<open>
  The landing page (\<open>Home\<close>) receives JSON text over a WebSocket. A decoded payload is a
  JavaScript value; \<open>JUndefined\<close> is what reading an absent property gives. A number is
  kept as its JavaScript rendering \<open>String(n)\<close>, which is all the page ever does with one.
  An object is the list of its own properties in insertion order (keys are unique after
  \<open>JSON.parse\<close>).
\<close>

datatype jsval =
    JUndefined
  | JNull
  | JBool bool
  | JNum string
  | JStr string
  | JArr "jsval list"
  | JObj "(string \<times> jsval) list"

text \<open>
  What the page can see thrown: a SyntaxError from \<open>JSON.parse\<close>, a TypeError from
  reading a property of \<open>undefined\<close> or \<open>null\<close> or from a failed conversion (a failed
  \<open>fetch\<close> rejects with one too), and an \<open>Error\<close> with a message.
\<close>

datatype js_error = SyntaxError | TypeError | Error string

text \<open>
  Property read \<open>v.k\<close>. Reading from \<open>undefined\<close> or \<open>null\<close> throws a TypeError; a
  decoded object gives its own property or \<open>undefined\<close>. A boolean, number, string or
  array gives \<open>undefined\<close> for every name the pages read that is not built in:
  \<open>type\<close>, \<open>course\<close>, \<open>courses\<close>, \<open>id\<close>, \<open>title\<close>, \<open>rating\<close>, \<open>students\<close>,
  \<open>price\<close>, \<open>image\<close>, \<open>category\<close> and the fields of the learning data. (Of the names
  read, only \<open>match\<close> is built in, on strings; a card for such a course has thrown at
  \<open>students\<close> before \<open>match\<close> is looked at.)
\<close>

fun get_prop :: "jsval \<Rightarrow> string \<Rightarrow> js_error + jsval" where
  "get_prop JUndefined k = Inl TypeError"
| "get_prop JNull k = Inl TypeError"
| "get_prop (JObj kvs) k = Inr (case map_of kvs k of None \<Rightarrow> JUndefined | Some v \<Rightarrow> v)"
| "get_prop v k = Inr JUndefined"

text \<open>
  String conversion as a template literal performs it. An array is joined with commas,
  \<open>undefined\<close> and \<open>null\<close> elements giving the empty string. A decoded object prints as
  \<open>[object Object]\<close>, unless it has an own property \<open>toString\<close>: that property is data,
  not a function, and the conversion then throws a TypeError.
\<close>

fun to_string :: "jsval \<Rightarrow> js_error + string"
  and join_elems :: "jsval list \<Rightarrow> js_error + string" where
  "to_string JUndefined = Inr ''undefined''"
| "to_string JNull = Inr ''null''"
| "to_string (JBool b) = Inr (if b then ''true'' else ''false'')"
| "to_string (JNum n) = Inr n"
| "to_string (JStr s) = Inr s"
| "to_string (JArr xs) = join_elems xs"
| "to_string (JObj kvs) =
     (if ''toString'' \<in> fst ` set kvs then Inl TypeError else Inr ''[object Object]'')"
| "join_elems [] = Inr []"
| "join_elems [x] = (if x = JUndefined \<or> x = JNull then Inr [] else to_string x)"
| "join_elems (x # y # ys) =
     (case (if x = JUndefined \<or> x = JNull then Inr [] else to_string x) of
        Inl e \<Rightarrow> Inl e
      | Inr s \<Rightarrow> (case join_elems (y # ys) of
                   Inl e \<Rightarrow> Inl e
                 | Inr r \<Rightarrow> Inr (s @ '','' @ r)))"

section \<open>The state of the landing page\<close>

text \<open>
  A toast notification. \<open>notif_id\<close> is the source's \<open>id\<close>: \<open>Date.now()\<close>, the time
  in milliseconds at which the notification is created. \<open>message\<close> is the text shown.
\<close>

record notification =
  notif_id :: nat
  message :: string

datatype ready_state = CONNECTING | OPEN | CLOSING | CLOSED

text \<open>
  The WebSocket object held in the module-level variable \<open>socket\<close>. \<open>close_calls\<close>
  counts the invocations of \<open>close()\<close> on it.
\<close>

record web_socket =
  readyState :: ready_state
  close_calls :: nat

datatype console_arg = Text string | Value jsval | Thrown js_error | ErrorEvent

datatype log_entry = console_log "console_arg list" | console_error "console_arg list"

text \<open>
  The six React state variables of \<open>Home\<close>, followed by the environment the component
  acts on: the console, the clock, the pending \<open>setTimeout\<close> timers as pairs of timer id
  and due time (the page has one \<open>setTimeout\<close> call site, so every pending timer runs
  the same callback), the timer held by the cleanup closure of the expiry effect, the
  socket, and two counters: WebSocket objects constructed and mock fetches started.
\<close>

record home =
  topPicks :: "jsval list"
  trending :: jsval
  aiSuggestions :: "jsval list"
  isLoading :: bool
  chatbotOpen :: bool
  notifications :: "notification list"
  console :: "log_entry list"
  clock :: nat
  timers :: "(nat \<times> nat) list"
  next_timer :: nat
  expiry_timer :: "nat option"
  socket :: "web_socket option"
  sockets_created :: nat
  fetch_calls :: nat

text \<open>The \<open>useState\<close> defaults, before any effect has run, at time \<open>t0\<close>.\<close>

definition initial :: "nat \<Rightarrow> home" where
  "initial t0 =
     \<lparr>topPicks = [], trending = JArr [], aiSuggestions = [], isLoading = True,
      chatbotOpen = False, notifications = [], console = [], clock = t0, timers = [],
      next_timer = 0, expiry_timer = None, socket = None, sockets_created = 0,
      fetch_calls = 0\<rparr>"

section \<open>Rendering the landing page\<close>

text \<open>
  React renders \<open>Home\<close> again after every state change. Neither page has an error
  boundary, so an exception thrown while rendering unmounts the page. The functions of
  this section give the exception a render throws, or \<open>None\<close> when it completes.
  \<open>first_error\<close> picks the exception of the first step that throws.
\<close>

fun first_error :: "js_error option list \<Rightarrow> js_error option" where
  "first_error [] = None"
| "first_error (None # es) = first_error es"
| "first_error (Some e # es) = Some e"

text \<open>
  Conversion to a primitive, as \<open>'' + v\<close> (React's treatment of a \<open>key\<close> and of a DOM
  attribute) and \<open>Math.floor(v)\<close> perform it: it throws exactly when the string
  conversion does.
\<close>

definition coercion_error :: "jsval \<Rightarrow> js_error option" where
  "coercion_error v = (case to_string v of Inl e \<Rightarrow> Some e | Inr s \<Rightarrow> None)"

text \<open>
  The call \<open>v.toLocaleString()\<close>. On \<open>undefined\<close> and \<open>null\<close> the property read throws.
  A decoded object inherits a \<open>toLocaleString\<close> that calls the object's \<open>toString\<close>, so
  an own property of either name, which is data, makes the call throw. An array calls
  \<open>toLocaleString\<close> on each element other than \<open>undefined\<close> and \<open>null\<close>.
\<close>

fun toLocaleString_error :: "jsval \<Rightarrow> js_error option"
  and elems_toLocaleString_error :: "jsval list \<Rightarrow> js_error option" where
  "toLocaleString_error JUndefined = Some TypeError"
| "toLocaleString_error JNull = Some TypeError"
| "toLocaleString_error (JBool b) = None"
| "toLocaleString_error (JNum n) = None"
| "toLocaleString_error (JStr s) = None"
| "toLocaleString_error (JArr xs) = elems_toLocaleString_error xs"
| "toLocaleString_error (JObj kvs) =
     (if ''toLocaleString'' \<in> fst ` set kvs \<or> ''toString'' \<in> fst ` set kvs
      then Some TypeError else None)"
| "elems_toLocaleString_error [] = None"
| "elems_toLocaleString_error (x # xs) =
     (case (if x = JUndefined \<or> x = JNull then None else toLocaleString_error x) of
        Some e \<Rightarrow> Some e
      | None \<Rightarrow> elems_toLocaleString_error xs)"

text \<open>
  A value placed between JSX tags. Strings, numbers, booleans, \<open>null\<close> and \<open>undefined\<close>
  are valid children, and so is an array of valid children; for a decoded object React
  throws an \<open>Error\<close> (its message, shortened here, starts
  \<open>Objects are not valid as a React child\<close>).
\<close>

fun valid_child :: "jsval \<Rightarrow> bool" where
  "valid_child (JObj kvs) = False"
| "valid_child (JArr xs) = (\<forall>x \<in> set xs. valid_child x)"
| "valid_child v = True"

definition child_error :: "jsval \<Rightarrow> js_error option" where
  "child_error v =
     (if valid_child v then None else Some (Error ''Objects are not valid as a React child''))"

text \<open>
  The callback of \<open>courses.map\<close> in \<open>Carousel\<close> builds \<open><div key={course.id}>\<close>: it reads
  \<open>course.id\<close> and the element's key is converted to a string.
\<close>

definition key_error :: "jsval \<Rightarrow> js_error option" where
  "key_error course =
     (case get_prop course ''id'' of
        Inl e \<Rightarrow> Some e
      | Inr k \<Rightarrow> coercion_error k)"

text \<open>
  \<open>CourseCard\<close>. Its body evaluates \<open>Math.floor(course.rating)\<close> and
  \<open>course.students.toLocaleString()\<close>; React then takes \<open>course.title\<close>,
  \<open>course.rating\<close>, \<open>course.price\<close> and, on a suggestion card, \<open>course.match\<close> as
  children, in this order.
\<close>

definition CourseCard :: "jsval \<Rightarrow> bool \<Rightarrow> js_error option" where
  "CourseCard course isAiSuggestion =
     (case get_prop course ''title'' of
        Inl e \<Rightarrow> Some e
      | Inr title \<Rightarrow>
     (case get_prop course ''rating'' of
        Inl e \<Rightarrow> Some e
      | Inr rating \<Rightarrow>
     (case get_prop course ''students'' of
        Inl e \<Rightarrow> Some e
      | Inr students \<Rightarrow>
     (case get_prop course ''price'' of
        Inl e \<Rightarrow> Some e
      | Inr price \<Rightarrow>
     (case get_prop course ''match'' of
        Inl e \<Rightarrow> Some e
      | Inr match \<Rightarrow>
          first_error
            [coercion_error rating,
             toLocaleString_error students,
             child_error title,
             child_error rating,
             child_error price,
             if isAiSuggestion then child_error match else None])))))"

text \<open>
  \<open>Carousel\<close>: \<open>courses.map\<close> throws a TypeError unless \<open>courses\<close> is an array; the
  callback runs for every course, and then the cards are rendered one after the other.
\<close>

definition Carousel :: "jsval \<Rightarrow> bool \<Rightarrow> js_error option" where
  "Carousel courses isAiSuggestion =
     (case courses of
        JArr cs \<Rightarrow>
          first_error (map key_error cs @ map (\<lambda>course. CourseCard course isAiSuggestion) cs)
      | _ \<Rightarrow> Some TypeError)"

text \<open>
  The render of \<open>Home\<close>: while \<open>isLoading\<close> holds only the spinner is shown; afterwards
  the three carousels are rendered, the suggestions first. The toasts show a string each
  and do not throw.
\<close>

definition render :: "home \<Rightarrow> js_error option" where
  "render st =
     (if isLoading st then None
      else first_error
             [Carousel (JArr (aiSuggestions st)) True,
              Carousel (JArr (topPicks st)) False,
              Carousel (trending st) False])"

text \<open>A state change followed by its render: the new state, or the exception that
  unmounts the page.\<close>

definition rerender :: "home \<Rightarrow> js_error + home" where
  "rerender st = (case render st of None \<Rightarrow> Inr st | Some e \<Rightarrow> Inl e)"

section \<open>Timers and the notification expiry effect\<close>

definition setTimeout :: "nat \<Rightarrow> home \<Rightarrow> nat \<times> home" where
  "setTimeout delay st =
     (next_timer st,
      st\<lparr>timers := timers st @ [(next_timer st, clock st + delay)],
         next_timer := Suc (next_timer st)\<rparr>)"

definition clearTimeout :: "nat \<Rightarrow> home \<Rightarrow> home" where
  "clearTimeout tid st = st\<lparr>timers := filter (\<lambda>(i, due). i \<noteq> tid) (timers st)\<rparr>"

text \<open>
  The effect with dependency \<open>[notifications]\<close>. React runs the cleanup returned by the
  previous run, then the body: with a non-empty queue it schedules a 5000 ms timer and
  returns the cleanup that clears it; with an empty queue it returns nothing.
\<close>

definition expiry_effect :: "home \<Rightarrow> home" where
  "expiry_effect st =
     (let st1 = (case expiry_timer st of None \<Rightarrow> st | Some t \<Rightarrow> clearTimeout t st)
      in if length (notifications st1) > 0
         then (case setTimeout 5000 st1 of (timer, st2) \<Rightarrow> st2\<lparr>expiry_timer := Some timer\<rparr>)
         else st1\<lparr>expiry_timer := None\<rparr>)"

text \<open>
  \<open>setNotifications(updater)\<close>. Every updater of the page builds a fresh array (spread,
  \<open>slice\<close>, \<open>filter\<close>), so the dependency changes and the expiry effect runs again after
  each call. The update and the effect are taken as one step. The render between them
  shows the same lists as the render before, which completed, and the toasts.
\<close>

definition setNotifications :: "(notification list \<Rightarrow> notification list) \<Rightarrow> home \<Rightarrow> home" where
  "setNotifications updater st = expiry_effect (st\<lparr>notifications := updater (notifications st)\<rparr>)"

text \<open>The timer callback: \<open>setNotifications(prev => prev.slice(1))\<close>.\<close>

definition timer_callback :: "home \<Rightarrow> home" where
  "timer_callback st = setNotifications (\<lambda>prev. drop 1 prev) st"

text \<open>
  The close button of the toast rendered for \<open>notification\<close>:
  \<open>setNotifications(prev => prev.filter(n => n.id !== notification.id))\<close>.
\<close>

definition onClose :: "notification \<Rightarrow> home \<Rightarrow> home" where
  "onClose notification st =
     setNotifications (\<lambda>prev. filter (\<lambda>n. notif_id n \<noteq> notif_id notification) prev) st"

section \<open>The WebSocket handlers\<close>

definition onopen :: "home \<Rightarrow> home" where
  "onopen st = st\<lparr>console := console st @ [console_log [Text ''WebSocket connection established'']]\<rparr>"

text \<open>
  \<open>onmessage\<close>. The argument \<open>parsed\<close> is the outcome of \<open>JSON.parse(event.data)\<close>:
  \<open>None\<close> when the text is not JSON and \<open>JSON.parse\<close> throws a SyntaxError. The result
  is \<open>Inl\<close> when processing the message throws. That happens in two ways. The handler
  itself throws in \<open>JSON.parse\<close> or in reading \<open>data.type\<close>: the exception leaves the
  handler and the page stays as it was. Or the render that follows the handler throws, in
  the state updater that builds the notification (\<open>data.course.title\<close>) or in a
  carousel: the page is unmounted. A message of another kind changes no state, and
  nothing is rendered.
\<close>

definition onmessage :: "jsval option \<Rightarrow> home \<Rightarrow> js_error + home" where
  "onmessage parsed st =
     (case parsed of
        None \<Rightarrow> Inl SyntaxError
      | Some data \<Rightarrow>
         (case get_prop data ''type'' of
            Inl e \<Rightarrow> Inl e
          | Inr ty \<Rightarrow>
             if ty = JStr ''new_recommendation'' then
               (case get_prop data ''course'' of
                  Inl e \<Rightarrow> Inl e
                | Inr course \<Rightarrow>
                   let st1 = st\<lparr>aiSuggestions := take 10 (course # aiSuggestions st)\<rparr> in
                   (case get_prop course ''title'' of
                      Inl e \<Rightarrow> Inl e
                    | Inr title \<Rightarrow>
                       (case to_string title of
                          Inl e \<Rightarrow> Inl e
                        | Inr text \<Rightarrow>
                           rerender
                             (setNotifications
                                (\<lambda>prev. prev @ [\<lparr>notif_id = clock st1,
                                                 message = ''New recommendation: '' @ text\<rparr>])
                                st1))))
             else if ty = JStr ''trending_update'' then
               (case get_prop data ''courses'' of
                  Inl e \<Rightarrow> Inl e
                | Inr courses \<Rightarrow> rerender (st\<lparr>trending := courses\<rparr>))
             else
               Inr (st\<lparr>console := console st @
                         [console_log [Text ''Received unknown update type:'', Value ty]]\<rparr>)))"

text \<open>The handler itself throws: \<open>JSON.parse\<close> does, or the read of \<open>data.type\<close>.\<close>

definition leaves_handler :: "jsval option \<Rightarrow> bool" where
  "leaves_handler parsed =
     (case parsed of
        None \<Rightarrow> True
      | Some data \<Rightarrow> (case get_prop data ''type'' of Inl e \<Rightarrow> True | Inr ty \<Rightarrow> False))"

definition onerror :: "home \<Rightarrow> home" where
  "onerror st = st\<lparr>console := console st @ [console_error [Text ''WebSocket error:'', ErrorEvent]]\<rparr>"

definition onclose :: "home \<Rightarrow> home" where
  "onclose st = st\<lparr>console := console st @ [console_log [Text ''WebSocket connection closed'']]\<rparr>"

text \<open>
  \<open>WebSocket.close()\<close>: from CONNECTING or OPEN the socket enters CLOSING (it reaches
  CLOSED when the closing handshake ends); from CLOSING or CLOSED the call has no effect.
\<close>

definition ws_close :: "web_socket \<Rightarrow> web_socket" where
  "ws_close s =
     s\<lparr>readyState := (if readyState s = CLOSING \<or> readyState s = CLOSED
                       then readyState s else CLOSING),
       close_calls := Suc (close_calls s)\<rparr>"

text \<open>The body of the WebSocket effect: \<open>socket = new WebSocket(...)\<close>.\<close>

definition connect :: "home \<Rightarrow> home" where
  "connect st =
     st\<lparr>socket := Some \<lparr>readyState = CONNECTING, close_calls = 0\<rparr>,
        sockets_created := Suc (sockets_created st)\<rparr>"

text \<open>
  The cleanup of the WebSocket effect, run when the component unmounts:
  \<open>if (socket && socket.readyState === WebSocket.OPEN) socket.close()\<close>.
\<close>

definition cleanup :: "home \<Rightarrow> home" where
  "cleanup st =
     (case socket st of
        None \<Rightarrow> st
      | Some s \<Rightarrow> if readyState s = OPEN then st\<lparr>socket := Some (ws_close s)\<rparr> else st)"

section \<open>The passage of time\<close>

text \<open>
  Among the pending timers, the one that fires next: the earliest due, the first
  scheduled among timers due together.
\<close>

fun earliest :: "(nat \<times> nat) list \<Rightarrow> (nat \<times> nat) option" where
  "earliest [] = None"
| "earliest (x # xs) =
     (case earliest xs of
        None \<Rightarrow> Some x
      | Some y \<Rightarrow> if snd x \<le> snd y then Some x else Some y)"

definition next_due :: "nat \<Rightarrow> (nat \<times> nat) list \<Rightarrow> (nat \<times> nat) option" where
  "next_due t ts = earliest (filter (\<lambda>(i, due). due \<le> t) ts)"

text \<open>A timer fires: it leaves the pending timers and its callback runs at its due time.\<close>

definition fire :: "nat \<times> nat \<Rightarrow> home \<Rightarrow> home" where
  "fire tm st =
     timer_callback
       (st\<lparr>clock := max (clock st) (snd tm),
           timers := filter (\<lambda>(i, due). i \<noteq> fst tm) (timers st)\<rparr>)"

lemma earliest_mem: "earliest ts = Some tm \<Longrightarrow> tm \<in> set ts"
  by (induction ts arbitrary: tm) (auto split: option.splits if_splits)

lemma next_due_mem: "next_due t ts = Some tm \<Longrightarrow> tm \<in> set ts \<and> snd tm \<le> t"
  unfolding next_due_def by (auto dest!: earliest_mem)

lemma length_filter_remove:
  assumes "tm \<in> set ts"
  shows "length (filter (\<lambda>(i, due). i \<noteq> fst tm) ts) < length ts"
proof -
  have "\<not> (case tm of (i, due) \<Rightarrow> i \<noteq> fst tm)"
    by (cases tm) simp
  with assms show ?thesis
    by (rule length_filter_less)
qed

lemma expiry_effect_notifications [simp]:
  "notifications (expiry_effect st) = notifications st"
  by (simp add: expiry_effect_def setTimeout_def clearTimeout_def Let_def split: option.splits)

lemma expiry_effect_timers_empty:
  "notifications st = [] \<Longrightarrow> length (timers (expiry_effect st)) \<le> length (timers st)"
  by (simp add: expiry_effect_def clearTimeout_def Let_def split: option.splits)

lemma fire_decreases:
  assumes "tm \<in> set (timers st)"
  shows "length (notifications (fire tm st)) < length (notifications st) \<or>
         (length (notifications (fire tm st)) = length (notifications st) \<and>
          length (timers (fire tm st)) < length (timers st))"
proof (cases "notifications st")
  case Nil
  let ?st' = "st\<lparr>clock := max (clock st) (snd tm),
                   timers := filter (\<lambda>(i, due). i \<noteq> fst tm) (timers st),
                   notifications := []\<rparr>"
  have eq: "fire tm st = expiry_effect ?st'"
    using Nil by (simp add: fire_def timer_callback_def setNotifications_def)
  have "length (timers (expiry_effect ?st')) \<le> length (timers ?st')"
    by (rule expiry_effect_timers_empty) simp
  moreover have "length (timers ?st') < length (timers st)"
    using length_filter_remove [OF assms] by simp
  ultimately show ?thesis
    using Nil eq by simp
next
  case (Cons n ns)
  then show ?thesis
    by (simp add: fire_def timer_callback_def setNotifications_def)
qed

text \<open>
  Time advances to \<open>t\<close>: every timer due by then fires, in order, including the timers
  that the firings themselves schedule.
\<close>

function advance_to :: "nat \<Rightarrow> home \<Rightarrow> home" where
  "advance_to t st =
     (case next_due t (timers st) of
        None \<Rightarrow> st\<lparr>clock := max (clock st) t\<rparr>
      | Some tm \<Rightarrow> advance_to t (fire tm st))"
  by pat_completeness auto
termination
proof (relation "inv_image (less_than <*lex*> less_than)
                   (\<lambda>(t, st). (length (notifications st), length (timers st)))")
  show "wf (inv_image (less_than <*lex*> less_than)
              (\<lambda>(t, st). (length (notifications st), length (timers st))))"
    by (intro wf_inv_image wf_lex_prod wf_less_than)
next
  fix t :: nat and st :: home and tm :: "nat \<times> nat"
  assume "next_due t (timers st) = Some tm"
  then have "tm \<in> set (timers st)"
    by (simp add: next_due_mem)
  from fire_decreases [OF this]
  show "((t, fire tm st), (t, st)) \<in>
          inv_image (less_than <*lex*> less_than)
            (\<lambda>(t, st). (length (notifications st), length (timers st)))"
    by auto
qed

declare advance_to.simps [simp del]

section \<open>What happens to the mounted page\<close>

text \<open>
  The events of the page's life after mounting: time passes, a message arrives (with the
  outcome of \<open>JSON.parse\<close>), the channel reports an error, the user presses the close
  button of the toast at a position of the queue. The render after a timer callback or
  a dismissal shows the lists of the render before.
\<close>

datatype action = Wait nat | Receive "jsval option" | ChannelError | Dismiss nat

definition step :: "action \<Rightarrow> home \<Rightarrow> js_error + home" where
  "step a st =
     (case a of
        Wait d \<Rightarrow> Inr (advance_to (clock st + d) st)
      | Receive parsed \<Rightarrow> onmessage parsed st
      | ChannelError \<Rightarrow> Inr (onerror st)
      | Dismiss i \<Rightarrow>
          Inr (if i < length (notifications st) then onClose (notifications st ! i) st else st))"

text \<open>
  A stretch of the page's life. An exception that leaves the message handler is
  reported by the browser and the page goes on as it was; an exception in a render
  unmounts the page, and nothing that arrives afterwards is processed: the stretch ends
  with that exception.
\<close>

fun run :: "action list \<Rightarrow> home \<Rightarrow> js_error + home" where
  "run [] st = Inr st"
| "run (a # as) st =
     (case step a st of
        Inr st' \<Rightarrow> run as st'
      | Inl e \<Rightarrow>
         (case a of
            Receive parsed \<Rightarrow> if leaves_handler parsed then run as st else Inl e
          | _ \<Rightarrow> Inl e))"

section \<open>The initial data population of the landing page\<close>

text \<open>
  The three mock fetches of \<open>Home\<close> resolve to hard-coded arrays of courses.
\<close>

definition course_item :: "string \<Rightarrow> string \<Rightarrow> string \<Rightarrow> string \<Rightarrow> string \<Rightarrow> string \<Rightarrow> jsval" where
  "course_item i title img rating students price =
     JObj [(''id'', JNum i), (''title'', JStr title), (''image'', JStr img),
           (''rating'', JNum rating), (''students'', JNum students), (''price'', JNum price)]"

definition ai_course ::
  "string \<Rightarrow> string \<Rightarrow> string \<Rightarrow> string \<Rightarrow> string \<Rightarrow> string \<Rightarrow> string \<Rightarrow> jsval" where
  "ai_course i title img rating students price match =
     JObj [(''id'', JNum i), (''title'', JStr title), (''image'', JStr img),
           (''rating'', JNum rating), (''students'', JNum students), (''price'', JNum price),
           (''match'', JNum match)]"

definition mockFetchTopPicks :: "js_error + jsval list" where
  "mockFetchTopPicks = Inr
     [course_item ''1'' ''Machine Learning Fundamentals'' ''/images/course1.jpg'' ''4.8'' ''12500'' ''49.99'',
      course_item ''2'' ''Advanced React Patterns'' ''/images/course2.jpg'' ''4.9'' ''8300'' ''59.99'',
      course_item ''3'' ''Data Science with Python'' ''/images/course3.jpg'' ''4.7'' ''15200'' ''44.99'',
      course_item ''4'' ''Full Stack Web Development'' ''/images/course4.jpg'' ''4.6'' ''10800'' ''69.99'',
      course_item ''5'' ''iOS App Development with Swift'' ''/images/course5.jpg'' ''4.5'' ''7600'' ''54.99'']"

definition mockFetchTrending :: "js_error + jsval list" where
  "mockFetchTrending = Inr
     [course_item ''6'' ''Blockchain Development'' ''/images/course6.jpg'' ''4.7'' ''9200'' ''64.99'',
      course_item ''7'' ''UX/UI Design Principles'' ''/images/course7.jpg'' ''4.8'' ''11300'' ''49.99'',
      course_item ''8'' ''Cloud Computing with AWS'' ''/images/course8.jpg'' ''4.6'' ''8700'' ''59.99'',
      course_item ''9'' ''Cybersecurity Fundamentals'' ''/images/course9.jpg'' ''4.9'' ''13400'' ''74.99'',
      course_item ''10'' ''Digital Marketing Mastery'' ''/images/course10.jpg'' ''4.5'' ''10100'' ''44.99'']"

definition mockFetchAiSuggestions :: "js_error + jsval list" where
  "mockFetchAiSuggestions = Inr
     [ai_course ''11'' ''Natural Language Processing'' ''/images/course11.jpg'' ''4.8'' ''7800'' ''69.99'' ''98'',
      ai_course ''12'' ''DevOps Engineering'' ''/images/course12.jpg'' ''4.7'' ''9100'' ''64.99'' ''95'',
      ai_course ''13'' ''Mobile App Design'' ''/images/course13.jpg'' ''4.6'' ''6500'' ''49.99'' ''92'',
      ai_course ''14'' ''Game Development with Unity'' ''/images/course14.jpg'' ''4.9'' ''12200'' ''79.99'' ''90'',
      ai_course ''15'' ''Business Intelligence'' ''/images/course15.jpg'' ''4.5'' ''8400'' ''54.99'' ''87'']"

text \<open>The \<open>catch\<close> block of \<open>fetchData\<close>.\<close>

definition fetchData_catch :: "js_error \<Rightarrow> home \<Rightarrow> home" where
  "fetchData_catch error st =
     st\<lparr>console := console st @ [console_error [Text ''Error fetching data:'', Thrown error]],
        isLoading := False\<rparr>"

text \<open>
  \<open>fetchData\<close>, given what each of the three awaited fetches settles to (\<open>Inl\<close>: it
  rejects). The fetches are awaited one after the other, and the four setters run only
  after the third; the first rejection goes to the \<open>catch\<close> block. Either way
  \<open>isLoading\<close> is cleared, and the render that follows shows the carousels for the
  first time.
\<close>

definition fetchData ::
  "(js_error + jsval list) \<Rightarrow> (js_error + jsval list) \<Rightarrow> (js_error + jsval list) \<Rightarrow> home \<Rightarrow>
   js_error + home" where
  "fetchData fetchTopPicks fetchTrending fetchAiSuggestions st =
     (let st1 = st\<lparr>fetch_calls := Suc (fetch_calls st)\<rparr> in
      case fetchTopPicks of
        Inl error \<Rightarrow> rerender (fetchData_catch error st1)
      | Inr topPicksResponse \<Rightarrow>
         (let st2 = st1\<lparr>fetch_calls := Suc (fetch_calls st1)\<rparr> in
          case fetchTrending of
            Inl error \<Rightarrow> rerender (fetchData_catch error st2)
          | Inr trendingResponse \<Rightarrow>
             (let st3 = st2\<lparr>fetch_calls := Suc (fetch_calls st2)\<rparr> in
              case fetchAiSuggestions of
                Inl error \<Rightarrow> rerender (fetchData_catch error st3)
              | Inr aiSuggestionsResponse \<Rightarrow>
                  rerender
                    (st3\<lparr>topPicks := topPicksResponse,
                         trending := JArr trendingResponse,
                         aiSuggestions := aiSuggestionsResponse,
                         isLoading := False\<rparr>))))"

text \<open>
  Mounting \<open>Home\<close> at time \<open>t0\<close>: the socket is created, the expiry effect runs for
  the first time, and \<open>fetchData\<close> completes with the mock fetches of the source. The
  mock courses render, so the second case below does not arise.
\<close>

definition mount :: "nat \<Rightarrow> home" where
  "mount t0 =
     (case fetchData mockFetchTopPicks mockFetchTrending mockFetchAiSuggestions
             (expiry_effect (connect (initial t0))) of
        Inr st \<Rightarrow> st
      | Inl e \<Rightarrow> initial t0)"

section \<open>The socket's own events\<close>

text \<open>
  The browser opens the connection (the socket becomes OPEN, then \<open>onopen\<close> runs) and
  ends it (the socket becomes CLOSED, then \<open>onclose\<close> runs).
\<close>

definition channel_opened :: "home \<Rightarrow> home" where
  "channel_opened st =
     onopen (st\<lparr>socket := map_option (\<lambda>s. s\<lparr>readyState := OPEN\<rparr>) (socket st)\<rparr>)"

definition channel_closed :: "home \<Rightarrow> home" where
  "channel_closed st =
     onclose (st\<lparr>socket := map_option (\<lambda>s. s\<lparr>readyState := CLOSED\<rparr>) (socket st)\<rparr>)"

section \<open>The initial data population of the dashboard\<close>

text \<open>
  The state variables of \<open>Dashboard\<close> (\<open>null\<close> is \<open>JNull\<close> for the data, \<open>None\<close> for the
  error text), its console, and a counter of the \<open>fetch\<close> calls made.
\<close>

record dashboard =
  learningData :: jsval
  recommendations :: jsval
  topCourses :: jsval
  loading :: bool
  error :: "string option"
  dashboard_console :: "log_entry list"
  requests :: nat

definition dashboard_initial :: dashboard where
  "dashboard_initial =
     \<lparr>learningData = JNull, recommendations = JArr [], topCourses = JArr [],
      loading = True, error = None, dashboard_console = [], requests = 0\<rparr>"

text \<open>An HTTP response: its \<open>ok\<close> flag and what \<open>response.json()\<close> settles to.\<close>

datatype response = Response (ok: bool) (json: "js_error + jsval")

text \<open>
  The \<open>try\<close> block shared by the three fetches, given what \<open>fetch\<close> settles to:
  a rejected \<open>fetch\<close>, a response that is not \<open>ok\<close> (an \<open>Error\<close> with the given message
  is thrown) and a rejected \<open>json()\<close> all end in the \<open>catch\<close> block.
\<close>

definition fetch_json :: "string \<Rightarrow> js_error + response \<Rightarrow> js_error + jsval" where
  "fetch_json failure settled =
     (case settled of
        Inl err \<Rightarrow> Inl err
      | Inr resp \<Rightarrow> if \<not> ok resp then Inl (Error failure) else json resp)"

definition progressData :: jsval where
  "progressData = JArr
     [JObj [(''name'', JStr ''Week 1''), (''completed'', JNum ''5''), (''target'', JNum ''7'')],
      JObj [(''name'', JStr ''Week 2''), (''completed'', JNum ''8''), (''target'', JNum ''7'')],
      JObj [(''name'', JStr ''Week 3''), (''completed'', JNum ''6''), (''target'', JNum ''7'')],
      JObj [(''name'', JStr ''Week 4''), (''completed'', JNum ''9''), (''target'', JNum ''7'')],
      JObj [(''name'', JStr ''Week 5''), (''completed'', JNum ''11''), (''target'', JNum ''7'')],
      JObj [(''name'', JStr ''Week 6''), (''completed'', JNum ''8''), (''target'', JNum ''7'')]]"

definition skillsData :: jsval where
  "skillsData = JArr
     [JObj [(''name'', JStr ''Programming''), (''value'', JNum ''75'')],
      JObj [(''name'', JStr ''Data Science''), (''value'', JNum ''60'')],
      JObj [(''name'', JStr ''Design''), (''value'', JNum ''45'')],
      JObj [(''name'', JStr ''Business''), (''value'', JNum ''30'')],
      JObj [(''name'', JStr ''Marketing''), (''value'', JNum ''20'')]]"

definition sample_learningData :: jsval where
  "sample_learningData =
     JObj [(''progressData'', progressData), (''skillsData'', skillsData),
           (''completedCourses'', JNum ''12''), (''totalHours'', JNum ''48''),
           (''streak'', JNum ''7'')]"

definition sample_course :: "string \<Rightarrow> string \<Rightarrow> string \<Rightarrow> string \<Rightarrow> string \<Rightarrow> jsval" where
  "sample_course i title category rating img =
     JObj [(''id'', JNum i), (''title'', JStr title), (''category'', JStr category),
           (''rating'', JNum rating), (''image'', JStr img)]"

definition sample_recommendations :: jsval where
  "sample_recommendations = JArr
     [sample_course ''1'' ''Machine Learning Fundamentals'' ''Data Science'' ''4.8'' ''/images/course1.jpg'',
      sample_course ''2'' ''Advanced React Patterns'' ''Programming'' ''4.7'' ''/images/course2.jpg'',
      sample_course ''3'' ''Data Visualization with D3'' ''Data Science'' ''4.5'' ''/images/course3.jpg'',
      sample_course ''4'' ''UX Design Principles'' ''Design'' ''4.6'' ''/images/course4.jpg'']"

definition sample_topCourses :: jsval where
  "sample_topCourses = JArr
     [sample_course ''5'' ''Python for Beginners'' ''Programming'' ''4.9'' ''/images/course5.jpg'',
      sample_course ''6'' ''Web Development Bootcamp'' ''Programming'' ''4.8'' ''/images/course6.jpg'',
      sample_course ''7'' ''Digital Marketing Essentials'' ''Marketing'' ''4.6'' ''/images/course7.jpg'',
      sample_course ''8'' ''Business Analytics'' ''Business'' ''4.7'' ''/images/course8.jpg'']"

text \<open>
  The three fetches, each given what its \<open>fetch\<close> settles to. The \<open>catch\<close> block sets
  the error text, logs the error and installs the sample data.
\<close>

definition fetchLearningData :: "js_error + response \<Rightarrow> dashboard \<Rightarrow> dashboard" where
  "fetchLearningData settled st =
     (let st1 = st\<lparr>requests := Suc (requests st)\<rparr> in
      case fetch_json ''Failed to fetch learning data'' settled of
        Inr data \<Rightarrow> st1\<lparr>learningData := data\<rparr>
      | Inl err \<Rightarrow>
          st1\<lparr>error := Some ''Error loading learning data'',
              dashboard_console := dashboard_console st1 @ [console_error [Thrown err]],
              learningData := sample_learningData\<rparr>)"

definition fetchRecommendations :: "js_error + response \<Rightarrow> dashboard \<Rightarrow> dashboard" where
  "fetchRecommendations settled st =
     (let st1 = st\<lparr>requests := Suc (requests st)\<rparr> in
      case fetch_json ''Failed to fetch recommendations'' settled of
        Inr data \<Rightarrow> st1\<lparr>recommendations := data\<rparr>
      | Inl err \<Rightarrow>
          st1\<lparr>error := Some ''Error loading recommendations'',
              dashboard_console := dashboard_console st1 @ [console_error [Thrown err]],
              recommendations := sample_recommendations\<rparr>)"

definition fetchTopCourses :: "js_error + response \<Rightarrow> dashboard \<Rightarrow> dashboard" where
  "fetchTopCourses settled st =
     (let st1 = st\<lparr>requests := Suc (requests st)\<rparr> in
      case fetch_json ''Failed to fetch top courses'' settled of
        Inr data \<Rightarrow> st1\<lparr>topCourses := data\<rparr>
      | Inl err \<Rightarrow>
          st1\<lparr>error := Some ''Error loading top courses'',
              dashboard_console := dashboard_console st1 @ [console_error [Thrown err]],
              topCourses := sample_topCourses\<rparr>)"

text \<open>
  The three fetches run side by side; \<open>order\<close> is the order in which they settle, a
  permutation of the three.
\<close>

datatype fetch_task = LearningData | Recommendations | TopCourses

definition settle ::
  "js_error + response \<Rightarrow> js_error + response \<Rightarrow> js_error + response \<Rightarrow>
   fetch_task \<Rightarrow> dashboard \<Rightarrow> dashboard" where
  "settle learning recs tops task st =
     (case task of
        LearningData \<Rightarrow> fetchLearningData learning st
      | Recommendations \<Rightarrow> fetchRecommendations recs st
      | TopCourses \<Rightarrow> fetchTopCourses tops st)"

text \<open>
  The state once all three have settled and \<open>Promise.all(...).finally\<close> has cleared
  \<open>loading\<close>. While \<open>loading\<close> held, every render showed the spinner only.
\<close>

definition dashboard_settled ::
  "fetch_task list \<Rightarrow> js_error + response \<Rightarrow> js_error + response \<Rightarrow> js_error + response \<Rightarrow>
   dashboard \<Rightarrow> dashboard" where
  "dashboard_settled order learning recs tops st =
     (fold (settle learning recs tops) order st)\<lparr>loading := False\<rparr>"

section \<open>Rendering the dashboard\<close>

text \<open>
  JavaScript truthiness (of a number kept as its rendering, only zero is falsy), the
  read \<open>v?.k\<close>, and the value of \<open>v || d\<close>.
\<close>

definition truthy :: "jsval \<Rightarrow> bool" where
  "truthy v =
     (case v of
        JUndefined \<Rightarrow> False
      | JNull \<Rightarrow> False
      | JBool b \<Rightarrow> b
      | JNum n \<Rightarrow> n \<noteq> ''0''
      | JStr s \<Rightarrow> s \<noteq> []
      | JArr xs \<Rightarrow> True
      | JObj kvs \<Rightarrow> True)"

definition optional_prop :: "jsval \<Rightarrow> string \<Rightarrow> jsval" where
  "optional_prop v k = (case get_prop v k of Inl e \<Rightarrow> JUndefined | Inr x \<Rightarrow> x)"

definition or_else :: "jsval \<Rightarrow> jsval \<Rightarrow> jsval" where
  "or_else v d = (if truthy v then v else d)"

text \<open>
  One course of \<open>recommendations.map\<close> or \<open>topCourses.map\<close>. The callback, which runs
  in the body of \<open>Dashboard\<close>, reads \<open>course.id\<close> for the key and evaluates
  \<open>Math.floor(course.rating)\<close>. React then sets the attributes \<open>src\<close> and \<open>alt\<close> of the
  image from \<open>course.image\<close> and \<open>course.title\<close>, converted to strings, and takes
  \<open>course.category\<close>, \<open>course.title\<close> and \<open>course.rating\<close> as children.
\<close>

definition dashboard_course_body :: "jsval \<Rightarrow> js_error option" where
  "dashboard_course_body course =
     (case get_prop course ''id'' of
        Inl e \<Rightarrow> Some e
      | Inr k \<Rightarrow>
     (case get_prop course ''rating'' of
        Inl e \<Rightarrow> Some e
      | Inr rating \<Rightarrow> first_error [coercion_error k, coercion_error rating]))"

definition dashboard_course_card :: "jsval \<Rightarrow> js_error option" where
  "dashboard_course_card course =
     first_error
       [coercion_error (or_else (optional_prop course ''image'')
                                (JStr ''https://via.placeholder.com/300x200'')),
        coercion_error (optional_prop course ''title''),
        child_error (optional_prop course ''category''),
        child_error (optional_prop course ''title''),
        child_error (optional_prop course ''rating'')]"

definition dashboard_list_body :: "jsval \<Rightarrow> js_error option" where
  "dashboard_list_body courses =
     (case courses of
        JArr cs \<Rightarrow> first_error (map dashboard_course_body cs)
      | _ \<Rightarrow> Some TypeError)"

definition dashboard_list_cards :: "jsval \<Rightarrow> js_error option" where
  "dashboard_list_cards courses =
     (case courses of
        JArr cs \<Rightarrow> first_error (map dashboard_course_card cs)
      | _ \<Rightarrow> None)"

text \<open>
  The render of \<open>Dashboard\<close> once \<open>loading\<close> is cleared. The body of the component
  calls \<open>.map\<close> on the skills data and on the two course lists, which throws a TypeError
  on anything but an array. React then renders, in this order, the three statistics
  \<open>learningData?.completedCourses || 0\<close>, \<open>totalHours\<close> and \<open>streak\<close>, the three charts,
  and the cards of the two lists. The charts are components of the recharts library,
  which is not part of the repository: \<open>charts progress skills\<close> stands for what
  rendering them with these data throws.
\<close>

definition dashboard_render :: "(jsval \<Rightarrow> jsval \<Rightarrow> js_error option) \<Rightarrow> dashboard \<Rightarrow> js_error option" where
  "dashboard_render charts st =
     (if loading st then None
      else
        let progress = or_else (optional_prop (learningData st) ''progressData'') progressData;
            skills = or_else (optional_prop (learningData st) ''skillsData'') skillsData
        in first_error
             [case skills of JArr entries \<Rightarrow> None | _ \<Rightarrow> Some TypeError,
              dashboard_list_body (recommendations st),
              dashboard_list_body (topCourses st),
              child_error (or_else (optional_prop (learningData st) ''completedCourses'') (JNum ''0'')),
              child_error (or_else (optional_prop (learningData st) ''totalHours'') (JNum ''0'')),
              child_error (or_else (optional_prop (learningData st) ''streak'') (JNum ''0'')),
              charts progress skills,
              dashboard_list_cards (recommendations st),
              dashboard_list_cards (topCourses st)])"

text \<open>
  The effect of \<open>Dashboard\<close> as a whole: the fetches settle, \<open>loading\<close> is cleared, and
  the page is rendered with what they left; an exception in that render unmounts it.
\<close>

definition dashboard_effect ::
  "(jsval \<Rightarrow> jsval \<Rightarrow> js_error option) \<Rightarrow> fetch_task list \<Rightarrow>
   js_error + response \<Rightarrow> js_error + response \<Rightarrow> js_error + response \<Rightarrow>
   dashboard \<Rightarrow> js_error + dashboard" where
  "dashboard_effect charts order learning recs tops st =
     (case dashboard_render charts (dashboard_settled order learning recs tops st) of
        None \<Rightarrow> Inr (dashboard_settled order learning recs tops st)
      | Some e \<Rightarrow> Inl e)"

section \<open>Vocabulary of the statements\<close>

text \<open>The six React state variables of \<open>Home\<close>: what the page renders from.\<close>

definition react_state ::
  "home \<Rightarrow> jsval list \<times> jsval \<times> jsval list \<times> bool \<times> bool \<times> notification list" where
  "react_state st =
     (topPicks st, trending st, aiSuggestions st, isLoading st, chatbotOpen st, notifications st)"

text \<open>
  What the carousels are rendered from, and a course that renders in a carousel: the
  callback of \<open>courses.map\<close> and the card both complete.
\<close>

definition carousel_data :: "home \<Rightarrow> bool \<times> jsval list \<times> jsval list \<times> jsval" where
  "carousel_data st = (isLoading st, aiSuggestions st, topPicks st, trending st)"

definition course_renders :: "bool \<Rightarrow> jsval \<Rightarrow> bool" where
  "course_renders isAiSuggestion course =
     (key_error course = None \<and> CourseCard course isAiSuggestion = None)"

text \<open>The envelope of a new-recommendation message around a course.\<close>

definition recommendation :: "jsval \<Rightarrow> jsval" where
  "recommendation c = JObj [(''type'', JStr ''new_recommendation''), (''course'', c)]"

text \<open>
  \<open>shows_title c\<close>: the template literal \<open>${course.title}\<close> can be evaluated for \<open>c\<close>.
  \<open>enclosed_course data\<close> is the course of a new-recommendation message, when the
  notification for it can be built and the course renders as a suggestion card; it is
  \<open>None\<close> for every other value.
\<close>

definition shows_title :: "jsval \<Rightarrow> bool" where
  "shows_title c =
     (case get_prop c ''title'' of
        Inl e \<Rightarrow> False
      | Inr title \<Rightarrow> (case to_string title of Inl e \<Rightarrow> False | Inr text \<Rightarrow> True))"

definition enclosed_course :: "jsval \<Rightarrow> jsval option" where
  "enclosed_course data =
     (if get_prop data ''type'' = Inr (JStr ''new_recommendation'')
      then (case get_prop data ''course'' of
              Inl e \<Rightarrow> None
            | Inr c \<Rightarrow> if shows_title c \<and> course_renders True c then Some c else None)
      else None)"

text \<open>
  A stretch of the page's life in which every message is such a new-recommendation
  message, and the courses those messages carried, in order of arrival.
\<close>

fun recommendations_only :: "action list \<Rightarrow> bool" where
  "recommendations_only [] = True"
| "recommendations_only (Receive None # as) = False"
| "recommendations_only (Receive (Some data) # as) =
     (enclosed_course data \<noteq> None \<and> recommendations_only as)"
| "recommendations_only (a # as) = recommendations_only as"

fun received :: "action list \<Rightarrow> jsval list" where
  "received [] = []"
| "received (Receive (Some data) # as) =
     (case enclosed_course data of None \<Rightarrow> received as | Some c \<Rightarrow> c # received as)"
| "received (a # as) = received as"

text \<open>
  The relation between the queue and the pending timers kept by the expiry effect:
  with an empty queue nothing is pending; otherwise exactly one timer is pending, it is
  the one the effect's cleanup holds, and it is due within the next 5000 ms.
  \<open>timer_held\<close> is the part of it that holds while a timer callback runs.
\<close>

definition timer_inv :: "home \<Rightarrow> bool" where
  "timer_inv st =
     (case notifications st of
        [] \<Rightarrow> timers st = [] \<and> expiry_timer st = None
      | n # ns \<Rightarrow>
         (case timers st of
            [(i, due)] \<Rightarrow> expiry_timer st = Some i \<and> clock st < due \<and> due \<le> clock st + 5000
          | _ \<Rightarrow> False))"

definition timer_held :: "home \<Rightarrow> bool" where
  "timer_held st =
     (case timers st of
        [] \<Rightarrow> True
      | [(i, due)] \<Rightarrow> expiry_timer st = Some i
      | _ \<Rightarrow> False)"

text \<open>
  For each of the three fetches of the dashboard: what its \<open>try\<close> block comes to, the
  state variable it fills, and the sample data its \<open>catch\<close> block installs.
\<close>

definition outcome_of ::
  "js_error + response \<Rightarrow> js_error + response \<Rightarrow> js_error + response \<Rightarrow> fetch_task \<Rightarrow>
   js_error + jsval" where
  "outcome_of learning recs tops task =
     (case task of
        LearningData \<Rightarrow> fetch_json ''Failed to fetch learning data'' learning
      | Recommendations \<Rightarrow> fetch_json ''Failed to fetch recommendations'' recs
      | TopCourses \<Rightarrow> fetch_json ''Failed to fetch top courses'' tops)"

definition shown :: "fetch_task \<Rightarrow> dashboard \<Rightarrow> jsval" where
  "shown task st =
     (case task of
        LearningData \<Rightarrow> learningData st
      | Recommendations \<Rightarrow> recommendations st
      | TopCourses \<Rightarrow> topCourses st)"

definition sample_of :: "fetch_task \<Rightarrow> jsval" where
  "sample_of task =
     (case task of
        LearningData \<Rightarrow> sample_learningData
      | Recommendations \<Rightarrow> sample_recommendations
      | TopCourses \<Rightarrow> sample_topCourses)"

section \<open>Properties of the operations\<close>

lemma first_error_None_iff: "first_error es = None \<longleftrightarrow> (\<forall>e \<in> set es. e = None)"
  by (induction es rule: first_error.induct) auto

lemma Carousel_None_iff:
  "Carousel courses b = None \<longleftrightarrow> (\<exists>cs. courses = JArr cs \<and> list_all (course_renders b) cs)"
  by (cases courses)
     (auto simp: Carousel_def first_error_None_iff course_renders_def list_all_iff)

lemma render_None_iff:
  "render st = None \<longleftrightarrow>
     isLoading st \<or>
     (list_all (course_renders True) (aiSuggestions st) \<and>
      list_all (course_renders False) (topPicks st) \<and>
      Carousel (trending st) False = None)"
  by (auto simp: render_def first_error_None_iff Carousel_None_iff)

lemma render_carousel_data: "carousel_data a = carousel_data b \<Longrightarrow> render a = render b"
  by (simp add: carousel_data_def render_def)

lemma rerender_ok: "render st = None \<Longrightarrow> rerender st = Inr st"
  by (simp add: rerender_def)

lemma rerender_Inr: "rerender st = Inr st' \<Longrightarrow> st' = st \<and> render st = None"
  by (simp add: rerender_def split: option.splits)

lemma course_item_renders [simp]: "course_renders b (course_item i title img rating students price)"
  by (simp add: course_renders_def course_item_def key_error_def CourseCard_def
        coercion_error_def child_error_def)

lemma ai_course_renders [simp]:
  "course_renders b (ai_course i title img rating students price match)"
  by (simp add: course_renders_def ai_course_def key_error_def CourseCard_def
        coercion_error_def child_error_def)

lemma ai_course_title [simp]:
  "get_prop (ai_course i title img rating students price match) ''title'' = Inr (JStr title)"
  by (simp add: ai_course_def)

lemma list_all_take: "list_all P xs \<Longrightarrow> list_all P (take n xs)"
  by (auto simp: list_all_iff dest: in_set_takeD)

lemma fetchData_mocks:
  "fetchData mockFetchTopPicks mockFetchTrending mockFetchAiSuggestions st =
     Inr (st\<lparr>topPicks := projr mockFetchTopPicks,
             trending := JArr (projr mockFetchTrending),
             aiSuggestions := projr mockFetchAiSuggestions,
             isLoading := False,
             fetch_calls := fetch_calls st + 3\<rparr>)"
  by (simp add: fetchData_def Let_def mockFetchTopPicks_def mockFetchTrending_def
        mockFetchAiSuggestions_def rerender_ok render_None_iff Carousel_None_iff)

lemma expiry_effect_carousel_data [simp]:
  "carousel_data (expiry_effect st) = carousel_data st"
  by (simp add: carousel_data_def expiry_effect_def setTimeout_def clearTimeout_def Let_def
           split: option.splits)

lemma setNotifications_carousel_data [simp]:
  "carousel_data (setNotifications f st) = carousel_data st"
  by (simp add: setNotifications_def) (simp add: carousel_data_def)

lemma fire_carousel_data [simp]: "carousel_data (fire tm st) = carousel_data st"
  by (simp add: fire_def timer_callback_def) (simp add: carousel_data_def)

lemma advance_to_carousel_data [simp]: "carousel_data (advance_to t st) = carousel_data st"
proof (induction t st rule: advance_to.induct)
  case (1 t st)
  show ?case
  proof (cases "next_due t (timers st)")
    case None
    then show ?thesis
      by (subst advance_to.simps) (simp add: carousel_data_def)
  next
    case (Some tm)
    with "1" show ?thesis
      by (subst advance_to.simps) simp
  qed
qed

lemma setNotifications_render [simp]: "render (setNotifications f st) = render st"
  by (rule render_carousel_data) simp

lemma advance_to_render [simp]: "render (advance_to t st) = render st"
  by (rule render_carousel_data) simp

lemma render_prepend:
  assumes "render st = None" and "course_renders True c"
  shows "render (st\<lparr>aiSuggestions := take 10 (c # aiSuggestions st)\<rparr>) = None"
  using assms by (auto simp: render_None_iff intro: list_all_take)

lemma expiry_effect_aiSuggestions [simp]:
  "aiSuggestions (expiry_effect st) = aiSuggestions st"
  by (simp add: expiry_effect_def setTimeout_def clearTimeout_def Let_def split: option.splits)

lemma setNotifications_aiSuggestions [simp]:
  "aiSuggestions (setNotifications f st) = aiSuggestions st"
  by (simp add: setNotifications_def)

lemma setNotifications_notifications [simp]:
  "notifications (setNotifications f st) = f (notifications st)"
  by (simp add: setNotifications_def)

lemma fire_aiSuggestions [simp]: "aiSuggestions (fire tm st) = aiSuggestions st"
  by (simp add: fire_def timer_callback_def)

lemma advance_to_aiSuggestions [simp]: "aiSuggestions (advance_to t st) = aiSuggestions st"
proof (induction t st rule: advance_to.induct)
  case (1 t st)
  show ?case
    by (subst advance_to.simps) (cases "next_due t (timers st)"; simp add: 1)
qed

lemma onmessage_new_recommendation:
  assumes "enclosed_course data = Some c" and "render st = None"
  shows "\<exists>text. onmessage (Some data) st =
             Inr (setNotifications
                    (\<lambda>prev. prev @ [\<lparr>notif_id = clock st,
                                     message = ''New recommendation: '' @ text\<rparr>])
                    (st\<lparr>aiSuggestions := take 10 (c # aiSuggestions st)\<rparr>))"
proof -
  from assms(1) have t: "get_prop data ''type'' = Inr (JStr ''new_recommendation'')"
    and c: "get_prop data ''course'' = Inr c" and s: "shows_title c" and r: "course_renders True c"
    by (auto simp: enclosed_course_def split: if_splits sum.splits)
  from s obtain title msg where tt: "get_prop c ''title'' = Inr title" "to_string title = Inr msg"
    by (auto simp: shows_title_def split: sum.splits)
  have "render (setNotifications
                  (\<lambda>prev. prev @ [\<lparr>notif_id = clock st,
                                   message = ''New recommendation: '' @ msg\<rparr>])
                  (st\<lparr>aiSuggestions := take 10 (c # aiSuggestions st)\<rparr>)) = None"
    using render_prepend [OF assms(2) r] by simp
  then show ?thesis
    using t c tt by (intro exI [of _ msg]) (simp add: onmessage_def Let_def rerender_ok)
qed

lemma take_append_take: "take n (xs @ take n ys) = take n (xs @ ys)"
  by (simp add: min_def)

lemma step_other_aiSuggestions:
  assumes "\<And>p. a \<noteq> Receive p"
  shows "\<exists>st'. step a st = Inr st' \<and> aiSuggestions st' = aiSuggestions st \<and>
               render st' = render st"
proof -
  have "render (onerror st) = render st"
    by (rule render_carousel_data) (simp add: carousel_data_def onerror_def)
  with assms show ?thesis
    by (cases a) (auto simp: step_def onerror_def onClose_def)
qed

lemma timer_inv_cases:
  "timer_inv st \<longleftrightarrow>
     (notifications st = [] \<and> timers st = [] \<and> expiry_timer st = None) \<or>
     (notifications st \<noteq> [] \<and>
      (\<exists>i due. timers st = [(i, due)] \<and> expiry_timer st = Some i \<and>
                clock st < due \<and> due \<le> clock st + 5000))"
  by (auto simp: timer_inv_def split: list.splits)

lemma timer_held_cases:
  "timer_held st \<longleftrightarrow>
     timers st = [] \<or> (\<exists>i due. timers st = [(i, due)] \<and> expiry_timer st = Some i)"
  by (auto simp: timer_held_def split: list.splits)

lemma timer_inv_held: "timer_inv st \<Longrightarrow> timer_held st"
  by (auto simp: timer_inv_cases timer_held_cases)

lemma expiry_effect_timers:
  assumes "timer_held st"
  shows "timers (expiry_effect st) =
           (if notifications st = [] then [] else [(next_timer st, clock st + 5000)])"
    and "expiry_timer (expiry_effect st) =
           (if notifications st = [] then None else Some (next_timer st))"
  using assms
  by (auto simp: timer_held_cases expiry_effect_def setTimeout_def clearTimeout_def Let_def
           split: option.splits)

lemma expiry_effect_clock [simp]: "clock (expiry_effect st) = clock st"
  by (simp add: expiry_effect_def setTimeout_def clearTimeout_def Let_def split: option.splits)

lemma expiry_effect_inv: "timer_held st \<Longrightarrow> timer_inv (expiry_effect st)"
  by (simp add: timer_inv_cases expiry_effect_timers)

lemma setNotifications_timers:
  assumes "timer_held st"
  shows "timers (setNotifications f st) =
           (if f (notifications st) = [] then [] else [(next_timer st, clock st + 5000)])"
proof -
  have "timer_held (st\<lparr>notifications := f (notifications st)\<rparr>)"
    using assms by (simp add: timer_held_cases)
  from expiry_effect_timers(1) [OF this] show ?thesis
    by (simp add: setNotifications_def)
qed

lemma setNotifications_inv: "timer_held st \<Longrightarrow> timer_inv (setNotifications f st)"
  unfolding setNotifications_def
  by (rule expiry_effect_inv) (simp add: timer_held_cases)

lemma fire_notifications [simp]: "notifications (fire tm st) = drop 1 (notifications st)"
  by (simp add: fire_def timer_callback_def)

lemma fire_inv:
  assumes "timer_inv st" and "tm \<in> set (timers st)"
  shows "timer_inv (fire tm st)"
    and "clock (fire tm st) = snd tm"
    and "timers (fire tm st) =
           (if drop 1 (notifications st) = [] then [] else [(next_timer st, snd tm + 5000)])"
proof -
  let ?st' = "st\<lparr>clock := snd tm, timers := []\<rparr>"
  from assms obtain i due where t: "timers st = [(i, due)]" "tm = (i, due)" "clock st < due"
    by (auto simp: timer_inv_cases)
  have held: "timer_held ?st'"
    by (simp add: timer_held_cases)
  have f: "fire tm st = setNotifications (\<lambda>prev. drop 1 prev) ?st'"
    using t by (simp add: fire_def timer_callback_def max_def)
  show "timer_inv (fire tm st)"
    unfolding f by (rule setNotifications_inv [OF held])
  show "clock (fire tm st) = snd tm"
    unfolding f by (simp add: setNotifications_def)
  show "timers (fire tm st) =
          (if drop 1 (notifications st) = [] then [] else [(next_timer st, snd tm + 5000)])"
    unfolding f setNotifications_timers [OF held] by simp
qed

lemma next_due_single:
  "next_due t [(i, due)] = (if due \<le> t then Some (i, due) else None)"
  by (simp add: next_due_def)

lemma next_due_Nil [simp]: "next_due t [] = None"
  by (simp add: next_due_def)

lemma advance_to_inv: "timer_inv st \<Longrightarrow> timer_inv (advance_to t st)"
proof (induction t st rule: advance_to.induct)
  case (1 t st)
  show ?case
  proof (cases "next_due t (timers st)")
    case None
    then have "advance_to t st = st\<lparr>clock := max (clock st) t\<rparr>"
      by (subst advance_to.simps) simp
    moreover have "timer_inv (st\<lparr>clock := max (clock st) t\<rparr>)"
      using None "1.prems"
      by (auto simp: timer_inv_cases next_due_single split: if_splits)
    ultimately show ?thesis by simp
  next
    case (Some tm)
    then have "tm \<in> set (timers st)"
      by (simp add: next_due_mem)
    then have "timer_inv (fire tm st)"
      using "1.prems" by (simp add: fire_inv(1))
    from "1.IH" [OF Some this] Some show ?thesis
      by (subst advance_to.simps) simp
  qed
qed

lemma div_step: "d + 5000 \<le> (t::nat) \<Longrightarrow> (t - d) div 5000 = Suc ((t - (d + 5000)) div 5000)"
  using le_div_geq [of 5000 "t - d"] by simp

lemma advance_to_notifications:
  assumes "timer_inv st"
  shows "notifications (advance_to t st) =
           drop (case timers st of
                   [] \<Rightarrow> 0
                 | (i, due) # ts \<Rightarrow> if t < due then 0 else Suc ((t - due) div 5000))
                (notifications st)"
  using assms
proof (induction t st rule: advance_to.induct)
  case (1 t st)
  show ?case
  proof (cases "next_due t (timers st)")
    case None
    then have "advance_to t st = st\<lparr>clock := max (clock st) t\<rparr>"
      by (subst advance_to.simps) simp
    then show ?thesis
      using None "1.prems"
      by (auto simp: timer_inv_cases next_due_single split: if_splits)
  next
    case (Some tm)
    then have mem: "tm \<in> set (timers st)"
      by (simp add: next_due_mem)
    with "1.prems" Some obtain i due where
      t: "timers st = [(i, due)]" "tm = (i, due)" "due \<le> t"
      by (auto simp: timer_inv_cases next_due_single split: if_splits)
    have inv': "timer_inv (fire tm st)"
      using "1.prems" mem by (simp add: fire_inv(1))
    have unfold: "advance_to t st = advance_to t (fire tm st)"
      using Some by (subst advance_to.simps) simp
    note ih = "1.IH" [OF Some inv']
    show ?thesis
    proof (cases "drop 1 (notifications st) = []")
      case True
      then have "drop (Suc ((t - due) div 5000)) (notifications st) = []"
        by (cases "notifications st") auto
      with True ih t unfold fire_inv(3) [OF "1.prems" mem] show ?thesis
        by simp
    next
      case False
      with ih t unfold fire_inv(3) [OF "1.prems" mem] show ?thesis
        by (auto simp: div_step)
    qed
  qed
qed

lemma mount_fields:
  "notifications (mount t0) = []" "timers (mount t0) = []" "expiry_timer (mount t0) = None"
  "clock (mount t0) = t0" "length (aiSuggestions (mount t0)) = 5" "isLoading (mount t0) = False"
  "next_timer (mount t0) = 0"
  "socket (mount t0) = Some \<lparr>readyState = CONNECTING, close_calls = 0\<rparr>"
  unfolding mount_def fetchData_mocks
  by (simp_all add: mockFetchAiSuggestions_def connect_def initial_def expiry_effect_def)

lemma mount_renders:
  "render (mount t0) = None"
  "list_all (course_renders True) (aiSuggestions (mount t0))"
  "list_all (course_renders False) (topPicks (mount t0))"
  "Carousel (trending (mount t0)) False = None"
  unfolding mount_def fetchData_mocks
  by (simp_all add: mockFetchTopPicks_def mockFetchTrending_def mockFetchAiSuggestions_def
        render_None_iff Carousel_None_iff)

lemma mount_inv: "timer_inv (mount t0)"
  by (simp add: timer_inv_cases mount_fields)

lemma onmessage_inv:
  assumes "timer_inv st" and "onmessage parsed st = Inr st'"
  shows "timer_inv st'"
proof -
  have held: "\<And>v. timer_held (st\<lparr>aiSuggestions := v\<rparr>)"
    using assms(1) by (auto simp: timer_inv_cases timer_held_cases)
  have other: "\<And>v. timer_inv (st\<lparr>trending := v\<rparr>)" "\<And>v. timer_inv (st\<lparr>console := v\<rparr>)"
    using assms(1) by (simp_all add: timer_inv_cases)
  from assms(2) show ?thesis
    by (auto simp: onmessage_def Let_def other setNotifications_inv [OF held]
             split: option.splits sum.splits if_splits dest!: rerender_Inr)
qed

lemma onmessage_renders:
  assumes "render st = None" and "onmessage parsed st = Inr st'"
  shows "render st' = None"
proof -
  have "render (st\<lparr>console := v\<rparr>) = render st" for v
    by (rule render_carousel_data) (simp add: carousel_data_def)
  with assms show ?thesis
    by (auto simp: onmessage_def Let_def split: option.splits sum.splits if_splits
             dest!: rerender_Inr)
qed

lemma step_inv:
  assumes "timer_inv st" and "step a st = Inr st'"
  shows "timer_inv st'"
proof (cases a)
  case (Wait d)
  with assms show ?thesis by (auto simp: step_def advance_to_inv)
next
  case (Receive parsed)
  with assms show ?thesis by (auto simp: step_def dest: onmessage_inv)
next
  case ChannelError
  with assms show ?thesis by (auto simp: step_def onerror_def timer_inv_cases)
next
  case (Dismiss i)
  with assms show ?thesis
    by (auto simp: step_def onClose_def setNotifications_inv timer_inv_held split: if_splits)
qed

lemma run_inv: "timer_inv st \<Longrightarrow> run acts st = Inr st' \<Longrightarrow> timer_inv st'"
proof (induction acts arbitrary: st)
  case Nil
  then show ?case by simp
next
  case (Cons a acts)
  show ?case
  proof (cases "step a st")
    case (Inr st1)
    with Cons.prems have "timer_inv st1" "run acts st1 = Inr st'"
      by (auto dest: step_inv)
    then show ?thesis by (rule Cons.IH)
  next
    case (Inl e)
    with Cons.prems(2) have "run acts st = Inr st'"
      by (cases a) (simp_all split: if_splits)
    with Cons.prems(1) show ?thesis by (rule Cons.IH)
  qed
qed

text \<open>Every state of the mounted page has rendered.\<close>

lemma step_renders:
  assumes "render st = None" and "step a st = Inr st'"
  shows "render st' = None"
proof (cases a)
  case (Receive parsed)
  with assms show ?thesis by (auto simp: step_def dest: onmessage_renders)
next
  case ChannelError
  have "render (onerror st) = render st"
    by (rule render_carousel_data) (simp add: carousel_data_def onerror_def)
  with ChannelError assms show ?thesis by (auto simp: step_def)
qed (use assms in \<open>auto simp: step_def onClose_def split: if_splits\<close>)

lemma run_renders: "render st = None \<Longrightarrow> run acts st = Inr st' \<Longrightarrow> render st' = None"
proof (induction acts arbitrary: st)
  case Nil
  then show ?case by simp
next
  case (Cons a acts)
  show ?case
  proof (cases "step a st")
    case (Inr st1)
    with Cons.prems have "render st1 = None" "run acts st1 = Inr st'"
      by (auto dest: step_renders)
    then show ?thesis by (rule Cons.IH)
  next
    case (Inl e)
    with Cons.prems(2) have "run acts st = Inr st'"
      by (cases a) (simp_all split: if_splits)
    with Cons.prems(1) show ?thesis by (rule Cons.IH)
  qed
qed

lemma onmessage_recommendation:
  assumes "get_prop c ''title'' = Inr (JStr title)" and "course_renders True c"
    and "render st = None"
  shows "onmessage (Some (recommendation c)) st =
           Inr (setNotifications
                  (\<lambda>prev. prev @ [\<lparr>notif_id = clock st,
                                   message = ''New recommendation: '' @ title\<rparr>])
                  (st\<lparr>aiSuggestions := take 10 (c # aiSuggestions st)\<rparr>))"
proof -
  have "render (setNotifications
                  (\<lambda>prev. prev @ [\<lparr>notif_id = clock st,
                                   message = ''New recommendation: '' @ title\<rparr>])
                  (st\<lparr>aiSuggestions := take 10 (c # aiSuggestions st)\<rparr>)) = None"
    using render_prepend [OF assms(3,2)] by simp
  then show ?thesis
    using assms(1) by (simp add: onmessage_def recommendation_def Let_def rerender_ok)
qed

lemma advance_to_idle:
  "next_due t (timers st) = None \<Longrightarrow> advance_to t st = st\<lparr>clock := max (clock st) t\<rparr>"
  by (subst advance_to.simps) simp

lemma advance_to_fire:
  "next_due t (timers st) = Some tm \<Longrightarrow> advance_to t st = advance_to t (fire tm st)"
  by (subst advance_to.simps) simp

text \<open>The facts that evaluate a concrete stretch of the page's life.\<close>

lemmas evaluate =
  step_def onmessage_recommendation setNotifications_def expiry_effect_def setTimeout_def
  clearTimeout_def mount_fields advance_to_idle advance_to_fire next_due_single fire_def
  timer_callback_def onClose_def onerror_def render_None_iff mount_renders list_all_take

lemma filter_out_nth:
  assumes "distinct (map f xs)" and "i < length xs"
  shows "filter (\<lambda>m. f m \<noteq> f (xs ! i)) xs = take i xs @ drop (Suc i) xs"
  using assms
proof (induction xs arbitrary: i)
  case Nil
  then show ?case by simp
next
  case (Cons x xs)
  show ?case
  proof (cases i)
    case 0
    have "filter (\<lambda>m. f m \<noteq> f x) xs = xs"
      using Cons.prems(1) by (auto simp: filter_id_conv image_iff)
    with 0 show ?thesis by simp
  next
    case (Suc j)
    with Cons.prems have j: "j < length xs" "distinct (map f xs)" "f x \<noteq> f (xs ! j)"
      by auto
    from Cons.IH [OF j(2) j(1)] j(3) Suc show ?thesis
      by simp
  qed
qed

lemmas settle_defs =
  settle_def fetchLearningData_def fetchRecommendations_def fetchTopCourses_def
  outcome_of_def shown_def sample_of_def Let_def

lemma settle_requests [simp]:
  "requests (settle l r t x st) = Suc (requests st)"
  by (cases x) (simp_all add: settle_defs split: sum.splits)

lemma fold_settle_requests:
  "requests (fold (settle l r t) order st) = requests st + length order"
  by (induction order arbitrary: st) simp_all

lemma settle_console_mono:
  "set (dashboard_console st) \<subseteq> set (dashboard_console (settle l r t x st))"
  by (cases x) (auto simp: settle_defs split: sum.splits)

lemma fold_settle_console_mono:
  "set (dashboard_console st) \<subseteq> set (dashboard_console (fold (settle l r t) order st))"
proof (induction order arbitrary: st)
  case Nil
  show ?case by simp
next
  case (Cons x xs)
  from settle_console_mono [of st l r t x] Cons [of "settle l r t x st"] show ?case
    by auto
qed

lemma settle_error_kept:
  "error st \<noteq> None \<Longrightarrow> error (settle l r t x st) \<noteq> None"
  by (cases x) (auto simp: settle_defs split: sum.splits)

lemma fold_settle_error_kept:
  "error st \<noteq> None \<Longrightarrow> error (fold (settle l r t) order st) \<noteq> None"
proof (induction order arbitrary: st)
  case Nil
  then show ?case by simp
next
  case (Cons x xs)
  from Cons.IH [OF settle_error_kept [OF Cons.prems]] show ?case by simp
qed

lemma settle_other: "x \<noteq> y \<Longrightarrow> shown y (settle l r t x st) = shown y st"
  by (cases x; cases y) (simp_all add: settle_defs split: sum.splits)

lemma settle_own:
  "shown x (settle l r t x st) =
     (case outcome_of l r t x of Inr data \<Rightarrow> data | Inl err \<Rightarrow> sample_of x)"
  by (cases x) (simp_all add: settle_defs split: sum.splits)

lemma fold_settle_other:
  "y \<notin> set order \<Longrightarrow> shown y (fold (settle l r t) order st) = shown y st"
proof (induction order arbitrary: st)
  case Nil
  show ?case by simp
next
  case (Cons x xs)
  then have "x \<noteq> y" "y \<notin> set xs" by auto
  with Cons.IH [of "settle l r t x st"] show ?case
    by (simp add: settle_other)
qed

lemma fold_settle_own:
  "y \<in> set order \<Longrightarrow>
     shown y (fold (settle l r t) order st) =
       (case outcome_of l r t y of Inr data \<Rightarrow> data | Inl err \<Rightarrow> sample_of y)"
proof (induction order arbitrary: st)
  case Nil
  then show ?case by simp
next
  case (Cons x xs)
  show ?case
  proof (cases "y \<in> set xs")
    case True
    from Cons.IH [OF this] show ?thesis by simp
  next
    case False
    with Cons.prems have "x = y" by simp
    with False show ?thesis
      by (simp add: fold_settle_other settle_own)
  qed
qed

lemma settle_failure_logged:
  assumes "outcome_of l r t x = Inl err"
  shows "console_error [Thrown err] \<in> set (dashboard_console (settle l r t x st))"
    and "error (settle l r t x st) \<noteq> None"
  using assms by (cases x; simp add: settle_defs)+

lemma fold_settle_failure_logged:
  assumes "x \<in> set order" and "outcome_of l r t x = Inl err"
  shows "console_error [Thrown err] \<in> set (dashboard_console (fold (settle l r t) order st))
         \<and> error (fold (settle l r t) order st) \<noteq> None"
  using assms(1)
proof (induction order arbitrary: st)
  case Nil
  then show ?case by simp
next
  case (Cons y ys)
  show ?case
  proof (cases "x = y")
    case True
    from settle_failure_logged [OF assms(2), of st] True
    have "console_error [Thrown err] \<in> set (dashboard_console (settle l r t y st))"
      "error (settle l r t y st) \<noteq> None"
      by simp_all
    with fold_settle_console_mono [of "settle l r t y st" l r t ys]
      fold_settle_error_kept [of "settle l r t y st" l r t ys]
    show ?thesis by auto
  next
    case False
    with Cons.prems have "x \<in> set ys" by simp
    from Cons.IH [OF this] show ?thesis by simp
  qed
qed

lemma all_tasks: "UNIV = {LearningData, Recommendations, TopCourses}"
  using fetch_task.exhaust by auto

lemma permutation_length:
  assumes "distinct order" and "set order = (UNIV :: fetch_task set)"
  shows "length order = 3"
proof -
  have "length order = card (set order)"
    using assms(1) by (simp add: distinct_card)
  also have "\<dots> = 3"
    unfolding assms(2) all_tasks by simp
  finally show ?thesis .
qed

lemma fetchData_catch_renders:
  assumes "render (st\<lparr>isLoading := False\<rparr>) = None"
  shows "rerender (fetchData_catch err (st\<lparr>fetch_calls := n\<rparr>)) =
           Inr (st\<lparr>isLoading := False,
                   console := console st @ [console_error [Text ''Error fetching data:'', Thrown err]],
                   fetch_calls := n\<rparr>)"
proof -
  have "render (fetchData_catch err (st\<lparr>fetch_calls := n\<rparr>)) = render (st\<lparr>isLoading := False\<rparr>)"
    by (rule render_carousel_data) (simp add: carousel_data_def fetchData_catch_def)
  with assms show ?thesis
    by (simp add: rerender_ok) (simp add: fetchData_catch_def)
qed

lemma fetchData_failure:
  assumes "render (st\<lparr>isLoading := False\<rparr>) = None"
  shows "a = Inl err \<Longrightarrow>
           fetchData a b c st =
             Inr (st\<lparr>isLoading := False,
                     console := console st @ [console_error [Text ''Error fetching data:'', Thrown err]],
                     fetch_calls := fetch_calls st + 1\<rparr>)"
    and "a = Inr x \<Longrightarrow> b = Inl err \<Longrightarrow>
           fetchData a b c st =
             Inr (st\<lparr>isLoading := False,
                     console := console st @ [console_error [Text ''Error fetching data:'', Thrown err]],
                     fetch_calls := fetch_calls st + 2\<rparr>)"
    and "a = Inr x \<Longrightarrow> b = Inr y \<Longrightarrow> c = Inl err \<Longrightarrow>
           fetchData a b c st =
             Inr (st\<lparr>isLoading := False,
                     console := console st @ [console_error [Text ''Error fetching data:'', Thrown err]],
                     fetch_calls := fetch_calls st + 3\<rparr>)"
  using fetchData_catch_renders [OF assms]
  by (simp_all add: fetchData_def Let_def)

lemma dashboard_settled_fields:
  "loading (dashboard_settled order l r t ds) = False"
  "requests (dashboard_settled order l r t ds) = requests ds + length order"
  "shown task (dashboard_settled order l r t ds) = shown task (fold (settle l r t) order ds)"
  "dashboard_console (dashboard_settled order l r t ds) =
     dashboard_console (fold (settle l r t) order ds)"
  "error (dashboard_settled order l r t ds) = error (fold (settle l r t) order ds)"
  by (cases task; simp add: dashboard_settled_def fold_settle_requests shown_def)+

lemma sample_lists_render:
  "dashboard_list_body sample_recommendations = None"
  "dashboard_list_cards sample_recommendations = None"
  "dashboard_list_body sample_topCourses = None"
  "dashboard_list_cards sample_topCourses = None"
proof -
  have course: "dashboard_course_body (sample_course i title category rating img) = None"
    "dashboard_course_card (sample_course i title category rating img) = None"
    for i title category rating img
    by (simp_all add: dashboard_course_body_def dashboard_course_card_def sample_course_def
          coercion_error_def child_error_def optional_prop_def or_else_def truthy_def)
  show "dashboard_list_body sample_recommendations = None"
    "dashboard_list_cards sample_recommendations = None"
    "dashboard_list_body sample_topCourses = None"
    "dashboard_list_cards sample_topCourses = None"
    by (simp_all add: dashboard_list_body_def dashboard_list_cards_def
          sample_recommendations_def sample_topCourses_def course)
qed

lemma sample_learning_renders:
  assumes "\<not> loading st" and "learningData st = sample_learningData"
    and "dashboard_list_body (recommendations st) = None"
    and "dashboard_list_cards (recommendations st) = None"
    and "dashboard_list_body (topCourses st) = None"
    and "dashboard_list_cards (topCourses st) = None"
  shows "dashboard_render charts st = charts progressData skillsData"
proof -
  have data: "optional_prop sample_learningData ''progressData'' = progressData"
    "optional_prop sample_learningData ''skillsData'' = skillsData"
    "optional_prop sample_learningData ''completedCourses'' = JNum ''12''"
    "optional_prop sample_learningData ''totalHours'' = JNum ''48''"
    "optional_prop sample_learningData ''streak'' = JNum ''7''"
    by (simp_all add: optional_prop_def sample_learningData_def)
  have arrays: "or_else progressData progressData = progressData"
    "or_else skillsData skillsData = skillsData"
    "(case skillsData of JArr entries \<Rightarrow> None | _ \<Rightarrow> Some TypeError) = None"
    by (simp_all add: or_else_def skillsData_def)
  have stats: "child_error (or_else (JNum ''12'') (JNum ''0'')) = None"
    "child_error (or_else (JNum ''48'') (JNum ''0'')) = None"
    "child_error (or_else (JNum ''7'') (JNum ''0'')) = None"
    by (simp_all add: child_error_def or_else_def)
  have "first_error [e, None, None] = e" for e
    by (cases e) simp_all
  then show ?thesis
    using assms by (simp add: dashboard_render_def Let_def data arrays stats)
qed

lemma sample_data_renders:
  assumes "\<not> loading st" and "learningData st = sample_learningData"
    and "recommendations st = sample_recommendations" and "topCourses st = sample_topCourses"
  shows "dashboard_render charts st = charts progressData skillsData"
  using assms by (simp add: sample_learning_renders sample_lists_render)

section \<open>Message handling: the recognised and the unrecognised kinds\<close>

text \<open>
  Claim C3. A message from which a kind can be read, and whose kind is neither
  \<open>new_recommendation\<close> nor \<open>trending_update\<close>, is processed without an exception, and
  the state afterwards is the state before with one more console record: the suggestion
  list, the trending list, the notification queue and everything else are unchanged.
\<close>

theorem unknown_kind_only_logged:
  assumes "get_prop data ''type'' = Inr ty"
    and "ty \<noteq> JStr ''new_recommendation''"
    and "ty \<noteq> JStr ''trending_update''"
  shows "\<exists>st'. onmessage (Some data) st = Inr st'
           \<and> st' = st\<lparr>console := console st @
                           [console_log [Text ''Received unknown update type:'', Value ty]]\<rparr>
           \<and> aiSuggestions st' = aiSuggestions st
           \<and> trending st' = trending st
           \<and> notifications st' = notifications st
           \<and> timers st' = timers st"
  using assms by (simp add: onmessage_def)

theorem unknown_kind_only_logged_witness:
  "onmessage (Some (JObj [(''type'', JStr ''course_removed''), (''course'', JNull)])) (mount 0) =
     Inr ((mount 0)\<lparr>console := console (mount 0) @
            [console_log [Text ''Received unknown update type:'', Value (JStr ''course_removed'')]]\<rparr>)"
  using unknown_kind_only_logged
          [of "JObj [(''type'', JStr ''course_removed''), (''course'', JNull)]"
              "JStr ''course_removed''" "mount 0"]
  by simp

text \<open>
  Claim C6. A \<open>trending_update\<close> message whose \<open>courses\<close> is an array of courses that
  render, arriving at a page that has rendered: the trending list becomes exactly that
  array, in the order received, whatever the list held before, and nothing else changes,
  in particular neither the suggestion list nor the notification queue.
\<close>

theorem trending_update_replaces:
  assumes "get_prop data ''type'' = Inr (JStr ''trending_update'')"
    and "get_prop data ''courses'' = Inr (JArr courses)"
    and "list_all (course_renders False) courses"
    and "render st = None"
  shows "onmessage (Some data) st = Inr (st\<lparr>trending := JArr courses\<rparr>)
         \<and> trending (st\<lparr>trending := JArr courses\<rparr>) = JArr courses
         \<and> aiSuggestions (st\<lparr>trending := JArr courses\<rparr>) = aiSuggestions st
         \<and> notifications (st\<lparr>trending := JArr courses\<rparr>) = notifications st"
proof -
  have "render (st\<lparr>trending := JArr courses\<rparr>) = None"
    using assms(3,4) by (auto simp: render_None_iff Carousel_None_iff)
  then show ?thesis
    using assms(1,2) by (simp add: onmessage_def rerender_ok)
qed

theorem trending_update_replaces_witness:
  "onmessage
     (Some (JObj [(''type'', JStr ''trending_update''),
                  (''courses'',
                   JArr [course_item ''21'' ''Rust in Practice'' ''/images/course21.jpg''
                           ''4.4'' ''3100'' ''29.99'',
                         course_item ''20'' ''Go Concurrency'' ''/images/course20.jpg''
                           ''4.3'' ''2800'' ''24.99''])]))
     (mount 0)
   = Inr ((mount 0)
            \<lparr>trending :=
               JArr [course_item ''21'' ''Rust in Practice'' ''/images/course21.jpg''
                       ''4.4'' ''3100'' ''29.99'',
                     course_item ''20'' ''Go Concurrency'' ''/images/course20.jpg''
                       ''4.3'' ''2800'' ''24.99'']\<rparr>)"
  using trending_update_replaces
          [of "JObj [(''type'', JStr ''trending_update''),
                     (''courses'',
                      JArr [course_item ''21'' ''Rust in Practice'' ''/images/course21.jpg''
                              ''4.4'' ''3100'' ''29.99'',
                            course_item ''20'' ''Go Concurrency'' ''/images/course20.jpg''
                              ''4.3'' ''2800'' ''24.99''])]"
              "[course_item ''21'' ''Rust in Practice'' ''/images/course21.jpg''
                  ''4.4'' ''3100'' ''29.99'',
                course_item ''20'' ''Go Concurrency'' ''/images/course20.jpg''
                  ''4.3'' ''2800'' ''24.99'']"
              "mount 0"]
  by (simp add: mount_renders)

text \<open>
  Claim C1. Through any stretch of the page's life in which every message received is a
  new-recommendation message with a course that renders (time may pass, toasts may be
  dismissed and channel errors may occur in between), starting from a page that has
  rendered at most 10 suggestions: no message throws, and the suggestion list afterwards
  is the first 10 entries of the received courses, most recent first, followed by the
  earlier suggestions. It never holds more than 10.
\<close>

theorem suggestions_hold_latest_ten:
  assumes "recommendations_only acts" and "length (aiSuggestions st) \<le> 10"
    and "render st = None"
  shows "\<exists>st'. run acts st = Inr st' \<and>
           aiSuggestions st' = take 10 (rev (received acts) @ aiSuggestions st) \<and>
           length (aiSuggestions st') \<le> 10"
  using assms
proof (induction acts arbitrary: st)
  case Nil
  then show ?case by simp
next
  case (Cons a acts)
  show ?case
  proof (cases "\<exists>p. a = Receive p")
    case False
    then obtain st1 where s1: "step a st = Inr st1" "aiSuggestions st1 = aiSuggestions st"
      "render st1 = render st"
      using step_other_aiSuggestions [of a st] by auto
    from False Cons.prems have r: "recommendations_only acts" "received (a # acts) = received acts"
      by (cases a; simp)+
    from Cons.IH [OF r(1), of st1] s1 Cons.prems(2,3) r(2) show ?thesis
      by auto
  next
    case True
    then obtain p where a: "a = Receive p" by blast
    with Cons.prems obtain data c where p: "p = Some data" "enclosed_course data = Some c"
      and r: "recommendations_only acts"
      by (cases p) auto
    from onmessage_new_recommendation [OF p(2) Cons.prems(3)]
    obtain st1 where s1: "onmessage (Some data) st = Inr st1"
      "aiSuggestions st1 = take 10 (c # aiSuggestions st)"
      by auto
    have "length (aiSuggestions st1) \<le> 10"
      using s1 by simp
    moreover have "render st1 = None"
      using Cons.prems(3) s1(1) by (rule onmessage_renders)
    ultimately obtain st' where
      s': "run acts st1 = Inr st'"
      "aiSuggestions st' = take 10 (rev (received acts) @ aiSuggestions st1)"
      "length (aiSuggestions st') \<le> 10"
      using Cons.IH [OF r] by blast
    have "take 10 (rev (received acts) @ take 10 (c # aiSuggestions st))
            = take 10 (rev (received acts) @ c # aiSuggestions st)"
      by (rule take_append_take)
    with s' s1 a p show ?thesis
      by (simp add: step_def)
  qed
qed

theorem suggestions_hold_latest_ten_witness:
  "\<exists>st'. run [Receive (Some (recommendation (ai_course ''41'' ''A'' ''/images/a.jpg'' ''4.5'' ''1200'' ''19.99'' ''80''))),
               Wait 100,
               Receive (Some (recommendation (ai_course ''42'' ''B'' ''/images/b.jpg'' ''4.5'' ''1200'' ''19.99'' ''80''))),
               ChannelError,
               Receive (Some (recommendation (ai_course ''43'' ''C'' ''/images/c.jpg'' ''4.5'' ''1200'' ''19.99'' ''80''))),
               Dismiss 0,
               Receive (Some (recommendation (ai_course ''44'' ''D'' ''/images/d.jpg'' ''4.5'' ''1200'' ''19.99'' ''80''))),
               Wait 6000,
               Receive (Some (recommendation (ai_course ''45'' ''E'' ''/images/e.jpg'' ''4.5'' ''1200'' ''19.99'' ''80''))),
               Receive (Some (recommendation (ai_course ''46'' ''F'' ''/images/f.jpg'' ''4.5'' ''1200'' ''19.99'' ''80'')))]
              (mount 0) = Inr st' \<and>
         aiSuggestions st' =
           [ai_course ''46'' ''F'' ''/images/f.jpg'' ''4.5'' ''1200'' ''19.99'' ''80'', ai_course ''45'' ''E'' ''/images/e.jpg'' ''4.5'' ''1200'' ''19.99'' ''80'',
            ai_course ''44'' ''D'' ''/images/d.jpg'' ''4.5'' ''1200'' ''19.99'' ''80'', ai_course ''43'' ''C'' ''/images/c.jpg'' ''4.5'' ''1200'' ''19.99'' ''80'',
            ai_course ''42'' ''B'' ''/images/b.jpg'' ''4.5'' ''1200'' ''19.99'' ''80'', ai_course ''41'' ''A'' ''/images/a.jpg'' ''4.5'' ''1200'' ''19.99'' ''80'']
           @ take 4 (aiSuggestions (mount 0)) \<and>
         length (aiSuggestions st') = 10"
  using suggestions_hold_latest_ten
    [of "[Receive (Some (recommendation (ai_course ''41'' ''A'' ''/images/a.jpg'' ''4.5'' ''1200'' ''19.99'' ''80''))),
               Wait 100,
               Receive (Some (recommendation (ai_course ''42'' ''B'' ''/images/b.jpg'' ''4.5'' ''1200'' ''19.99'' ''80''))),
               ChannelError,
               Receive (Some (recommendation (ai_course ''43'' ''C'' ''/images/c.jpg'' ''4.5'' ''1200'' ''19.99'' ''80''))),
               Dismiss 0,
               Receive (Some (recommendation (ai_course ''44'' ''D'' ''/images/d.jpg'' ''4.5'' ''1200'' ''19.99'' ''80''))),
               Wait 6000,
               Receive (Some (recommendation (ai_course ''45'' ''E'' ''/images/e.jpg'' ''4.5'' ''1200'' ''19.99'' ''80''))),
               Receive (Some (recommendation (ai_course ''46'' ''F'' ''/images/f.jpg'' ''4.5'' ''1200'' ''19.99'' ''80'')))]" "mount 0"]
  by (auto simp: recommendation_def enclosed_course_def shows_title_def mount_fields
        mount_renders)

text \<open>
  Claim C8. Two new-recommendation messages, the first with a course titled
  \<open>Intro to Rust\<close> and the second with one titled \<open>Intro to Go\<close>, both courses ones
  that render, arriving one after the other at a page that has rendered and has no
  notification pending: afterwards the suggestion list starts with the Go course
  followed by the Rust course, and exactly two notifications are pending, one for each
  title, in order of arrival.
\<close>

theorem two_recommendations_scenario:
  assumes "get_prop rust ''title'' = Inr (JStr ''Intro to Rust'')"
    and "get_prop go ''title'' = Inr (JStr ''Intro to Go'')"
    and "course_renders True rust" and "course_renders True go"
    and "notifications st = []" and "render st = None"
  shows "\<exists>st'. run [Receive (Some (recommendation rust)), Receive (Some (recommendation go))] st
                 = Inr st' \<and>
           take 2 (aiSuggestions st') = [go, rust] \<and>
           map message (notifications st') =
             [''New recommendation: Intro to Rust'', ''New recommendation: Intro to Go'']"
proof -
  define st1 where
    "st1 = setNotifications
             (\<lambda>prev. prev @ [\<lparr>notif_id = clock st,
                              message = ''New recommendation: '' @ ''Intro to Rust''\<rparr>])
             (st\<lparr>aiSuggestions := take 10 (rust # aiSuggestions st)\<rparr>)"
  have 1: "onmessage (Some (recommendation rust)) st = Inr st1"
    unfolding st1_def using assms(1,3,6) by (rule onmessage_recommendation)
  have "render st1 = None"
    using assms(6) 1 by (rule onmessage_renders)
  with assms(2,4) have 2: "onmessage (Some (recommendation go)) st1 =
      Inr (setNotifications
             (\<lambda>prev. prev @ [\<lparr>notif_id = clock st1,
                              message = ''New recommendation: '' @ ''Intro to Go''\<rparr>])
             (st1\<lparr>aiSuggestions := take 10 (go # aiSuggestions st1)\<rparr>))"
    by (rule onmessage_recommendation)
  have s: "aiSuggestions st1 = take 10 (rust # aiSuggestions st)"
    "map message (notifications st1) = [''New recommendation: Intro to Rust'']"
    using assms(5) by (simp_all add: st1_def)
  show ?thesis
    by (simp add: step_def 1 2 s)
qed

theorem two_recommendations_scenario_witness:
  "\<exists>st'. run [Receive (Some (recommendation (ai_course ''31'' ''Intro to Rust'' ''/images/rust.jpg'' ''4.7'' ''5400'' ''39.99'' ''91''))),
               Receive (Some (recommendation (ai_course ''32'' ''Intro to Go'' ''/images/go.jpg'' ''4.6'' ''4100'' ''34.99'' ''89'')))]
              (mount 0) = Inr st' \<and>
         take 2 (aiSuggestions st') =
           [ai_course ''32'' ''Intro to Go'' ''/images/go.jpg'' ''4.6'' ''4100'' ''34.99'' ''89'',
            ai_course ''31'' ''Intro to Rust'' ''/images/rust.jpg'' ''4.7'' ''5400'' ''39.99'' ''91''] \<and>
         map message (notifications st') =
           [''New recommendation: Intro to Rust'', ''New recommendation: Intro to Go'']"
  by (rule two_recommendations_scenario) (simp_all add: mount_fields mount_renders)

text \<open>
  Claim C5, as the code has it. A channel error, and a message of unrecognised kind read
  from a decoded value other than \<open>null\<close>, are not fatal: no exception is raised and
  the state afterwards is the state before with one more console record, so the React
  state, the pending timers and the number of sockets constructed are unchanged. A
  message that is not JSON text makes the handler throw a SyntaxError, and the JSON text
  \<open>null\<close> a TypeError, before anything is logged or changed.
\<close>

theorem channel_failures_only_logged:
  "step ChannelError st =
     Inr (st\<lparr>console := console st @ [console_error [Text ''WebSocket error:'', ErrorEvent]]\<rparr>)
   \<and> (get_prop data ''type'' = Inr ty \<and> ty \<noteq> JStr ''new_recommendation'' \<and>
        ty \<noteq> JStr ''trending_update'' \<longrightarrow>
        step (Receive (Some data)) st =
          Inr (st\<lparr>console := console st @
                     [console_log [Text ''Received unknown update type:'', Value ty]]\<rparr>))
   \<and> (\<forall>entries. sockets_created (st\<lparr>console := entries\<rparr>) = sockets_created st \<and>
                  react_state (st\<lparr>console := entries\<rparr>) = react_state st \<and>
                  timers (st\<lparr>console := entries\<rparr>) = timers st)
   \<and> step (Receive None) st = Inl SyntaxError
   \<and> step (Receive (Some JNull)) st = Inl TypeError"
  by (simp add: step_def onerror_def onmessage_def react_state_def)

theorem channel_failures_only_logged_witness:
  "step ChannelError (mount 0) =
     Inr ((mount 0)\<lparr>console := console (mount 0) @
            [console_error [Text ''WebSocket error:'', ErrorEvent]]\<rparr>)
   \<and> step (Receive (Some (JObj [(''type'', JStr ''heartbeat'')]))) (mount 0) =
          Inr ((mount 0)\<lparr>console := console (mount 0) @
                 [console_log [Text ''Received unknown update type:'', Value (JStr ''heartbeat'')]]\<rparr>)
   \<and> step (Receive (Some (JObj [(''kind'', JStr ''trending_update'')]))) (mount 0) =
          Inr ((mount 0)\<lparr>console := console (mount 0) @
                 [console_log [Text ''Received unknown update type:'', Value JUndefined]]\<rparr>)"
  using channel_failures_only_logged
          [of "mount 0" "JObj [(''type'', JStr ''heartbeat'')]" "JStr ''heartbeat''"]
        channel_failures_only_logged
          [of "mount 0" "JObj [(''kind'', JStr ''trending_update'')]" JUndefined]
  by simp

text \<open>
  The claim as stated fails for a malformed message: the SyntaxError of \<open>JSON.parse\<close>
  leaves the handler uncaught.
\<close>

theorem malformed_message_throws:
  "onmessage None (mount 0) = Inl SyntaxError"
  by (simp add: onmessage_def)

section \<open>Teardown\<close>

text \<open>
  Claim C4. Teardown with the socket OPEN calls \<open>close()\<close> once: the socket leaves OPEN
  for CLOSING, nothing else changes, and a second teardown does nothing more. Teardown
  with no socket, or with a socket in any other state, changes nothing. No case raises
  an error.
\<close>

theorem teardown_closes_open_socket_once:
  "(socket st = Some s \<and> readyState s = OPEN \<longrightarrow>
      cleanup st = st\<lparr>socket := Some (s\<lparr>readyState := CLOSING,
                                          close_calls := Suc (close_calls s)\<rparr>)\<rparr> \<and>
      cleanup (cleanup st) = cleanup st)
   \<and> ((\<forall>s. socket st = Some s \<longrightarrow> readyState s \<noteq> OPEN) \<longrightarrow> cleanup st = st)"
  by (auto simp: cleanup_def ws_close_def split: option.splits)

theorem teardown_closes_open_socket_once_witness:
  "socket (channel_opened (mount 0)) = Some \<lparr>readyState = OPEN, close_calls = 0\<rparr>
   \<and> socket (cleanup (channel_opened (mount 0))) = Some \<lparr>readyState = CLOSING, close_calls = 1\<rparr>
   \<and> socket (cleanup (cleanup (channel_opened (mount 0)))) =
        Some \<lparr>readyState = CLOSING, close_calls = 1\<rparr>
   \<and> cleanup (channel_closed (cleanup (channel_opened (mount 0)))) =
        channel_closed (cleanup (channel_opened (mount 0)))"
proof -
  have s: "socket (channel_opened (mount 0)) = Some \<lparr>readyState = OPEN, close_calls = 0\<rparr>"
    by (simp add: channel_opened_def onopen_def mount_fields)
  have c: "\<And>st. socket (channel_closed st) = map_option (\<lambda>s. s\<lparr>readyState := CLOSED\<rparr>) (socket st)"
    by (simp add: channel_closed_def onclose_def)
  from teardown_closes_open_socket_once
         [of "channel_opened (mount 0)" "\<lparr>readyState = OPEN, close_calls = 0\<rparr>"] s
  have 1: "cleanup (channel_opened (mount 0)) =
          (channel_opened (mount 0))\<lparr>socket := Some \<lparr>readyState = CLOSING, close_calls = 1\<rparr>\<rparr>"
    "cleanup (cleanup (channel_opened (mount 0))) = cleanup (channel_opened (mount 0))"
    by auto
  have 2: "cleanup (channel_closed (cleanup (channel_opened (mount 0)))) =
        channel_closed (cleanup (channel_opened (mount 0)))"
    using teardown_closes_open_socket_once
         [of "channel_closed (cleanup (channel_opened (mount 0)))"]
    by (simp add: c 1)
  from s 1 2 show ?thesis by simp
qed

section \<open>Notification expiry\<close>

text \<open>
  Claim C10. In every state the mounted page reaches: at most one expiry timer is
  pending, and one is pending exactly when the queue is non-empty; any change of the queue
  leaves no timer when the new queue is empty and otherwise exactly one fresh timer, due
  5000 ms after the change; a firing timer removes exactly the head of the queue; and
  while nothing else happens the pending timer, due within 5000 ms, removes the head
  when it fires and one further head every 5000 ms after that, so the queue is emptied
  from the front in insertion order.
\<close>

theorem single_expiry_timer:
  assumes "run acts (mount t0) = Inr st"
  shows "length (timers st) \<le> 1
       \<and> (timers st = []) = (notifications st = [])
       \<and> (\<forall>updater. timers (setNotifications updater st) =
             (if updater (notifications st) = [] then []
              else [(next_timer st, clock st + 5000)]))
       \<and> (\<forall>tm. notifications (fire tm st) = drop 1 (notifications st))
       \<and> (\<forall>i due. timers st = [(i, due)] \<longrightarrow>
             clock st < due \<and> due \<le> clock st + 5000 \<and>
             (\<forall>t. notifications (advance_to t st) =
                    drop (if t < due then 0 else Suc ((t - due) div 5000)) (notifications st)))"
proof -
  have inv: "timer_inv st"
    using mount_inv assms by (rule run_inv)
  have "length (timers st) \<le> 1" "(timers st = []) = (notifications st = [])"
    using inv by (auto simp: timer_inv_cases)
  moreover have "\<forall>updater. timers (setNotifications updater st) =
             (if updater (notifications st) = [] then []
              else [(next_timer st, clock st + 5000)])"
    using setNotifications_timers [OF timer_inv_held [OF inv]] by blast
  moreover have "\<forall>tm. notifications (fire tm st) = drop 1 (notifications st)"
    by simp
  moreover have "\<forall>i due. timers st = [(i, due)] \<longrightarrow>
             clock st < due \<and> due \<le> clock st + 5000 \<and>
             (\<forall>t. notifications (advance_to t st) =
                    drop (if t < due then 0 else Suc ((t - due) div 5000)) (notifications st))"
    using inv advance_to_notifications [OF inv]
    by (auto simp: timer_inv_cases)
  ultimately show ?thesis by blast
qed

theorem single_expiry_timer_witness:
  "\<exists>st. run [Receive (Some (recommendation (ai_course ''31'' ''Intro to Rust'' ''/images/rust.jpg'' ''4.7'' ''5400'' ''39.99'' ''91''))),
              Wait 1000,
              Receive (Some (recommendation (ai_course ''32'' ''Intro to Go'' ''/images/go.jpg'' ''4.6'' ''4100'' ''34.99'' ''89'')))]
             (mount 0) = Inr st \<and>
        timers st = [(1, 6000)] \<and>
        map notif_id (notifications st) = [0, 1000] \<and>
        map notif_id (notifications (advance_to 5999 st)) = [0, 1000] \<and>
        map notif_id (notifications (advance_to 6000 st)) = [1000] \<and>
        map notif_id (notifications (advance_to 10999 st)) = [1000] \<and>
        notifications (advance_to 11000 st) = []"
proof -
  have "case run [Receive (Some (recommendation (ai_course ''31'' ''Intro to Rust'' ''/images/rust.jpg'' ''4.7'' ''5400'' ''39.99'' ''91''))),
              Wait 1000,
              Receive (Some (recommendation (ai_course ''32'' ''Intro to Go'' ''/images/go.jpg'' ''4.6'' ''4100'' ''34.99'' ''89'')))]
             (mount 0) of
          Inl e \<Rightarrow> False
        | Inr st \<Rightarrow> timers st = [(1, 6000)] \<and> map notif_id (notifications st) = [0, 1000]"
    by (simp add: evaluate)
  then obtain st where
    r: "run [Receive (Some (recommendation (ai_course ''31'' ''Intro to Rust'' ''/images/rust.jpg'' ''4.7'' ''5400'' ''39.99'' ''91''))),
              Wait 1000,
              Receive (Some (recommendation (ai_course ''32'' ''Intro to Go'' ''/images/go.jpg'' ''4.6'' ''4100'' ''34.99'' ''89'')))]
             (mount 0) = Inr st"
    and t: "timers st = [(1, 6000)]" and n: "map notif_id (notifications st) = [0, 1000]"
    by (auto split: sum.splits)
  from single_expiry_timer [OF r] t
  have "\<forall>t. notifications (advance_to t st) =
              drop (if t < 6000 then 0 else Suc ((t - 6000) div 5000)) (notifications st)"
    by simp
  then have "notifications (advance_to 5999 st) = notifications st"
    "notifications (advance_to 6000 st) = drop 1 (notifications st)"
    "notifications (advance_to 10999 st) = drop 1 (notifications st)"
    "notifications (advance_to 11000 st) = drop 2 (notifications st)"
    by (simp_all add: numeral_2_eq_2)
  with r t n show ?thesis
    by (auto simp: drop_map [symmetric] simp del: drop_map)
qed

text \<open>
  Claim C2. Two recommendations, with courses that render, arrive 1000 ms apart, at
  times 0 and 1000 (a toast is shown for each). The second
  insertion cancels the first timer and schedules one due at 6000. At time 5999 the
  first notification is still in the queue, 5999 ms after its insertion; it leaves at
  6000, and the second leaves at 11000: at time 10999 the second notification is still
  in the queue, 9999 ms after its insertion.
\<close>

theorem second_notification_outlives_window:
  "(case run [Receive (Some (recommendation (ai_course ''31'' ''Intro to Rust'' ''/images/rust.jpg'' ''4.7'' ''5400'' ''39.99'' ''91''))),
              Wait 1000,
              Receive (Some (recommendation (ai_course ''32'' ''Intro to Go'' ''/images/go.jpg'' ''4.6'' ''4100'' ''34.99'' ''89''))),
              Wait 4999] (mount 0) of
      Inl e \<Rightarrow> False
    | Inr st \<Rightarrow>
        clock st = 5999 \<and>
        notifications st =
          [\<lparr>notif_id = 0, message = ''New recommendation: Intro to Rust''\<rparr>,
           \<lparr>notif_id = 1000, message = ''New recommendation: Intro to Go''\<rparr>])
   \<and> (case run [Receive (Some (recommendation (ai_course ''31'' ''Intro to Rust'' ''/images/rust.jpg'' ''4.7'' ''5400'' ''39.99'' ''91''))),
              Wait 1000,
              Receive (Some (recommendation (ai_course ''32'' ''Intro to Go'' ''/images/go.jpg'' ''4.6'' ''4100'' ''34.99'' ''89''))),
              Wait 9999] (mount 0) of
      Inl e \<Rightarrow> False
    | Inr st \<Rightarrow>
        clock st = 10999 \<and>
        notifications st =
          [\<lparr>notif_id = 1000, message = ''New recommendation: Intro to Go''\<rparr>])"
  by (simp add: evaluate)

section \<open>Dismissal\<close>

text \<open>
  Claim C7, as the code has it. Pressing the close button of a toast removes from the
  queue exactly the notifications whose id is that of the toast's notification, and
  keeps the others in order. When the ids in the queue are distinct, dismissing the
  toast at position \<open>i\<close> removes the entry at position \<open>i\<close> and nothing else, wherever
  in the queue it stands.
\<close>

theorem dismissal_removes_by_id:
  "notifications (onClose n st) = filter (\<lambda>m. notif_id m \<noteq> notif_id n) (notifications st)
   \<and> (i < length (notifications st) \<and> distinct (map notif_id (notifications st)) \<longrightarrow>
        step (Dismiss i) st = Inr (onClose (notifications st ! i) st) \<and>
        notifications (onClose (notifications st ! i) st) =
          take i (notifications st) @ drop (Suc i) (notifications st))"
  by (simp add: onClose_def step_def filter_out_nth)

theorem dismissal_removes_by_id_witness:
  "notifications
     (onClose \<lparr>notif_id = 1000, message = ''b''\<rparr>
        ((mount 0)\<lparr>notifications := [\<lparr>notif_id = 0, message = ''a''\<rparr>,
                                       \<lparr>notif_id = 1000, message = ''b''\<rparr>,
                                       \<lparr>notif_id = 2000, message = ''c''\<rparr>]\<rparr>))
     = [\<lparr>notif_id = 0, message = ''a''\<rparr>, \<lparr>notif_id = 2000, message = ''c''\<rparr>]"
  using dismissal_removes_by_id
    [of "\<lparr>notif_id = 1000, message = ''b''\<rparr>"
        "(mount 0)\<lparr>notifications := [\<lparr>notif_id = 0, message = ''a''\<rparr>,
                                       \<lparr>notif_id = 1000, message = ''b''\<rparr>,
                                       \<lparr>notif_id = 2000, message = ''c''\<rparr>]\<rparr>" 1]
  by simp

text \<open>
  The claim as stated fails: with two notifications queued, dismissing the newer one
  leaves the oldest in the queue.
\<close>

theorem dismissal_keeps_oldest:
  "case run [Receive (Some (recommendation (ai_course ''31'' ''Intro to Rust'' ''/images/rust.jpg'' ''4.7'' ''5400'' ''39.99'' ''91''))),
             Wait 1000,
             Receive (Some (recommendation (ai_course ''32'' ''Intro to Go'' ''/images/go.jpg'' ''4.6'' ''4100'' ''34.99'' ''89'')))]
            (mount 0) of
     Inl e \<Rightarrow> False
   | Inr st \<Rightarrow>
       map notif_id (notifications st) = [0, 1000] \<and>
       map notif_id (notifications (onClose (notifications st ! 1) st)) = [0] \<and>
       notifications (onClose (notifications st ! 1) st) \<noteq> drop 1 (notifications st)"
  by (simp add: evaluate)

section \<open>Failure of the initial data population\<close>

text \<open>
  Claim C9, as the code has it. On the landing page, with lists that render once the
  spinner is gone: when one of the three awaited fetches rejects, that first rejection is
  caught and logged, \<open>isLoading\<close> is cleared, every list keeps the value it had, and
  no fetch is started after the one that rejected (one, two or three have been started,
  none twice). On the dashboard, whatever the order in which the three fetches settle,
  \<open>loading\<close> is cleared and exactly three fetches are made; each fetch that fails is
  logged, sets the error text and leaves the sample data in its state variable, and each
  that succeeds leaves the fetched data there; the page with these data is what the
  effect ends in when it renders, and when all three fail nothing but the charts can
  throw. These are not the only failures that can be observed: a new-recommendation
  message without a course makes the render that applies it throw a TypeError, the
  page is unmounted, and nothing that arrives afterwards is processed.
\<close>

theorem failed_population:
  "(render (st\<lparr>isLoading := False\<rparr>) = None \<longrightarrow>
      (a = Inl err \<longrightarrow>
         fetchData a b c st =
           Inr (st\<lparr>isLoading := False,
                   console := console st @ [console_error [Text ''Error fetching data:'', Thrown err]],
                   fetch_calls := fetch_calls st + 1\<rparr>)) \<and>
      (a = Inr x \<and> b = Inl err \<longrightarrow>
         fetchData a b c st =
           Inr (st\<lparr>isLoading := False,
                   console := console st @ [console_error [Text ''Error fetching data:'', Thrown err]],
                   fetch_calls := fetch_calls st + 2\<rparr>)) \<and>
      (a = Inr x \<and> b = Inr y \<and> c = Inl err \<longrightarrow>
         fetchData a b c st =
           Inr (st\<lparr>isLoading := False,
                   console := console st @ [console_error [Text ''Error fetching data:'', Thrown err]],
                   fetch_calls := fetch_calls st + 3\<rparr>)))
   \<and> (distinct order \<and> set order = UNIV \<and> S = dashboard_settled order l r t ds \<longrightarrow>
        loading S = False \<and>
        requests S = requests ds + 3 \<and>
        (\<forall>task e. outcome_of l r t task = Inl e \<longrightarrow>
           shown task S = sample_of task \<and>
           console_error [Thrown e] \<in> set (dashboard_console S) \<and>
           error S \<noteq> None) \<and>
        (\<forall>task data. outcome_of l r t task = Inr data \<longrightarrow> shown task S = data) \<and>
        (dashboard_render charts S = None \<longrightarrow>
           dashboard_effect charts order l r t ds = Inr S) \<and>
        ((\<forall>task. \<exists>e. outcome_of l r t task = Inl e) \<longrightarrow>
           dashboard_render charts S = charts progressData skillsData))
   \<and> run (Receive (Some (recommendation JUndefined)) # acts) st2 = Inl TypeError"
proof (intro conjI impI allI)
  show "run (Receive (Some (recommendation JUndefined)) # acts) st2 = Inl TypeError"
    by (simp add: step_def onmessage_def recommendation_def leaves_handler_def)
next
  assume "render (st\<lparr>isLoading := False\<rparr>) = None"
  note f = fetchData_failure [OF this]
  { assume "a = Inl err"
    then show "fetchData a b c st =
           Inr (st\<lparr>isLoading := False,
                   console := console st @ [console_error [Text ''Error fetching data:'', Thrown err]],
                   fetch_calls := fetch_calls st + 1\<rparr>)"
      by (rule f(1)) }
  { assume "a = Inr x \<and> b = Inl err"
    then show "fetchData a b c st =
           Inr (st\<lparr>isLoading := False,
                   console := console st @ [console_error [Text ''Error fetching data:'', Thrown err]],
                   fetch_calls := fetch_calls st + 2\<rparr>)"
      using f(2) by blast }
  { assume "a = Inr x \<and> b = Inr y \<and> c = Inl err"
    then show "fetchData a b c st =
           Inr (st\<lparr>isLoading := False,
                   console := console st @ [console_error [Text ''Error fetching data:'', Thrown err]],
                   fetch_calls := fetch_calls st + 3\<rparr>)"
      using f(3) by blast }
next
  assume o: "distinct order \<and> set order = UNIV \<and> S = dashboard_settled order l r t ds"
  then have S: "S = dashboard_settled order l r t ds" and len: "length order = 3"
    by (simp_all add: permutation_length)
  show "loading S = False"
    by (simp add: S dashboard_settled_fields)
  show "requests S = requests ds + 3"
    by (simp add: S dashboard_settled_fields len)
  { fix task e
    assume f: "outcome_of l r t task = Inl e"
    from o have m: "task \<in> set order" by simp
    show "shown task S = sample_of task"
      using fold_settle_own [OF m, of l r t ds] f by (simp add: S dashboard_settled_fields)
    show "console_error [Thrown e] \<in> set (dashboard_console S)"
      using fold_settle_failure_logged [OF m f, of ds] by (simp add: S dashboard_settled_fields)
    show "error S \<noteq> None"
      using fold_settle_failure_logged [OF m f, of ds] by (simp add: S dashboard_settled_fields) }
  { fix task data
    assume f: "outcome_of l r t task = Inr data"
    from o have m: "task \<in> set order" by simp
    show "shown task S = data"
      using fold_settle_own [OF m, of l r t ds] f by (simp add: S dashboard_settled_fields) }
  { assume "dashboard_render charts S = None"
    then show "dashboard_effect charts order l r t ds = Inr S"
      by (simp add: dashboard_effect_def S) }
  { assume all: "\<forall>task. \<exists>e. outcome_of l r t task = Inl e"
    have "shown task S = sample_of task" for task
    proof -
      from all obtain e where f: "outcome_of l r t task = Inl e" by blast
      from o have m: "task \<in> set order" by simp
      show ?thesis
        using fold_settle_own [OF m, of l r t ds] f by (simp add: S dashboard_settled_fields)
    qed
    from this [of LearningData] this [of Recommendations] this [of TopCourses]
    have "learningData S = sample_learningData" "recommendations S = sample_recommendations"
      "topCourses S = sample_topCourses"
      by (simp_all add: shown_def sample_of_def)
    moreover have "\<not> loading S"
      by (simp add: S dashboard_settled_fields)
    ultimately show "dashboard_render charts S = charts progressData skillsData"
      by (simp add: sample_data_renders) }
qed

theorem failed_population_witness:
  "fetchData (Inl (Error ''offline'')) mockFetchTrending mockFetchAiSuggestions
       (expiry_effect (connect (initial 0))) =
     Inr ((expiry_effect (connect (initial 0)))
            \<lparr>isLoading := False,
             console := console (expiry_effect (connect (initial 0))) @
                          [console_error [Text ''Error fetching data:'', Thrown (Error ''offline'')]],
             fetch_calls := fetch_calls (expiry_effect (connect (initial 0))) + 1\<rparr>)
   \<and> fetchData mockFetchTopPicks (Inl TypeError) mockFetchAiSuggestions
       (expiry_effect (connect (initial 0))) =
     Inr ((expiry_effect (connect (initial 0)))
            \<lparr>isLoading := False,
             console := console (expiry_effect (connect (initial 0))) @
                          [console_error [Text ''Error fetching data:'', Thrown TypeError]],
             fetch_calls := fetch_calls (expiry_effect (connect (initial 0))) + 2\<rparr>)
   \<and> (\<exists>S. dashboard_effect (\<lambda>progress skills. None) [TopCourses, LearningData, Recommendations]
              (Inl TypeError) (Inr (Response False (Inr JNull)))
              (Inr (Response True (Inr (JArr [])))) dashboard_initial = Inr S
          \<and> loading S = False
          \<and> requests S = 3
          \<and> learningData S = sample_learningData
          \<and> recommendations S = sample_recommendations
          \<and> topCourses S = JArr []
          \<and> console_error [Thrown (Error ''Failed to fetch recommendations'')]
               \<in> set (dashboard_console S)
          \<and> error S \<noteq> None)
   \<and> run [Receive (Some (recommendation JUndefined)),
           Receive (Some (recommendation (ai_course ''32'' ''Intro to Go'' ''/images/go.jpg'' ''4.6'' ''4100'' ''34.99'' ''89'')))]
          (mount 0) = Inl TypeError"
proof -
  let ?st = "expiry_effect (connect (initial 0))"
  let ?l = "Inl TypeError :: js_error + response"
  let ?r = "Inr (Response False (Inr JNull)) :: js_error + response"
  let ?t = "Inr (Response True (Inr (JArr []))) :: js_error + response"
  let ?order = "[TopCourses, LearningData, Recommendations]"
  let ?charts = "\<lambda>progress skills. None :: js_error option"
  let ?S = "dashboard_settled ?order ?l ?r ?t dashboard_initial"
  have empty: "render (?st\<lparr>isLoading := False\<rparr>) = None"
    by (simp add: render_None_iff Carousel_None_iff expiry_effect_def connect_def initial_def)
  have picks: "mockFetchTopPicks = Inr (projr mockFetchTopPicks)"
    by (simp add: mockFetchTopPicks_def)
  have perm: "distinct ?order \<and> set ?order = UNIV \<and> ?S = ?S"
    by (auto simp: all_tasks)
  have o: "outcome_of ?l ?r ?t LearningData = Inl TypeError"
    "outcome_of ?l ?r ?t Recommendations = Inl (Error ''Failed to fetch recommendations'')"
    "outcome_of ?l ?r ?t TopCourses = Inr (JArr [])"
    by (simp_all add: outcome_of_def fetch_json_def)
  note first = failed_population
      [of ?st "Inl (Error ''offline'')" "Error ''offline''" mockFetchTrending
          mockFetchAiSuggestions _ _ ?order ?S ?l ?r ?t dashboard_initial ?charts
          "[Receive (Some (recommendation (ai_course ''32'' ''Intro to Go'' ''/images/go.jpg'' ''4.6'' ''4100'' ''34.99'' ''89'')))]" "mount 0"]
  note second = failed_population
      [of ?st mockFetchTopPicks TypeError "Inl TypeError" mockFetchAiSuggestions
          "projr mockFetchTopPicks"]
  from first empty have 1:
    "fetchData (Inl (Error ''offline'')) mockFetchTrending mockFetchAiSuggestions ?st =
       Inr (?st\<lparr>isLoading := False,
               console := console ?st @
                 [console_error [Text ''Error fetching data:'', Thrown (Error ''offline'')]],
               fetch_calls := fetch_calls ?st + 1\<rparr>)"
    by blast
  from second empty picks have 2:
    "fetchData mockFetchTopPicks (Inl TypeError) mockFetchAiSuggestions ?st =
       Inr (?st\<lparr>isLoading := False,
               console := console ?st @
                 [console_error [Text ''Error fetching data:'', Thrown TypeError]],
               fetch_calls := fetch_calls ?st + 2\<rparr>)"
    by blast
  from first perm have d:
    "loading ?S = False"
    "requests ?S = requests dashboard_initial + 3"
    "\<And>task e. outcome_of ?l ?r ?t task = Inl e \<Longrightarrow>
       shown task ?S = sample_of task \<and>
       console_error [Thrown e] \<in> set (dashboard_console ?S) \<and> error ?S \<noteq> None"
    "\<And>task data. outcome_of ?l ?r ?t task = Inr data \<Longrightarrow> shown task ?S = data"
    "dashboard_render ?charts ?S = None \<Longrightarrow>
       dashboard_effect ?charts ?order ?l ?r ?t dashboard_initial = Inr ?S"
    by blast+
  from d(3) [OF o(1)] d(3) [OF o(2)] d(4) [OF o(3)] have fields:
    "learningData ?S = sample_learningData" "recommendations ?S = sample_recommendations"
    "topCourses ?S = JArr []"
    "console_error [Thrown (Error ''Failed to fetch recommendations'')]
       \<in> set (dashboard_console ?S)"
    "error ?S \<noteq> None"
    by (simp_all add: shown_def sample_of_def)
  have none: "dashboard_list_body (JArr []) = None" "dashboard_list_cards (JArr []) = None"
    by (simp_all add: dashboard_list_body_def dashboard_list_cards_def)
  have "dashboard_render ?charts ?S = None"
    using d(1) fields(1-3)
    by (subst sample_learning_renders) (simp_all add: sample_lists_render none)
  from d(5) [OF this] have 3: "dashboard_effect ?charts ?order ?l ?r ?t dashboard_initial = Inr ?S" .
  from first have 4:
    "run [Receive (Some (recommendation JUndefined)),
          Receive (Some (recommendation (ai_course ''32'' ''Intro to Go'' ''/images/go.jpg'' ''4.6'' ''4100'' ''34.99'' ''89'')))] (mount 0) = Inl TypeError"
    by blast
  from d(1,2) fields 3 have
    "\<exists>S. dashboard_effect ?charts ?order ?l ?r ?t dashboard_initial = Inr S
          \<and> loading S = False
          \<and> requests S = 3
          \<and> learningData S = sample_learningData
          \<and> recommendations S = sample_recommendations
          \<and> topCourses S = JArr []
          \<and> console_error [Thrown (Error ''Failed to fetch recommendations'')]
               \<in> set (dashboard_console S)
          \<and> error S \<noteq> None"
    by (intro exI [of _ ?S]) (simp add: dashboard_initial_def)
  with 1 2 4 show ?thesis by blast
qed

text \<open>
  The claim as stated calls the failed population the only failure observable from
  outside. A new-recommendation message whose course is \<open>null\<close> arrives at the mounted
  page: the render that applies it throws a TypeError and the page is unmounted, so the
  recommendation that follows is never shown.
\<close>

theorem handler_failure_surfaces:
  "onmessage (Some (recommendation JNull)) (mount 0) = Inl TypeError
   \<and> \<not> leaves_handler (Some (recommendation JNull))
   \<and> run [Receive (Some (recommendation JNull)),
           Receive (Some (recommendation (ai_course ''32'' ''Intro to Go'' ''/images/go.jpg'' ''4.6'' ''4100'' ''34.99'' ''89'')))]
          (mount 0) = Inl TypeError"
  by (simp add: step_def onmessage_def recommendation_def leaves_handler_def)

end
